theory Spec2Isabelle
  imports Complex_Main
begin

section \<open>Net worth tracker: the record store, derived calculations and the CSV codec\<close>

text \<open>
  A shallow embedding of \<^verbatim>\<open>app.js\<close>. The module-level arrays \<^verbatim>\<open>assets\<close>,
  \<^verbatim>\<open>liabilities\<close>, \<^verbatim>\<open>snapshots\<close> and the two editing ids become one
  record that every operation takes and returns. What a dialog or a form field returns is an
  argument of the operation. Of the redrawing only whether it raises is modelled, and local
  storage is taken to accept every write.
\<close>

subsection \<open>JavaScript numbers\<close>

text \<open>
  A number is an IEEE 754 double: a finite value, the negative zero, \<^verbatim>\<open>NaN\<close> or one of the
  two infinities. \<open>Fin r\<close> is the finite double whose value is the real \<open>r\<close>, \<open>Fin 0\<close> being
  the positive zero.
\<close>

datatype jsnum = Fin real | NegZero | NaN | PInf | NInf

text \<open>The number of binary digits of a positive integer.\<close>

function bitLength :: "int \<Rightarrow> int" where
  "bitLength n = (if n \<le> 0 then 0 else 1 + bitLength (n div 2))"
  by pat_completeness auto
termination
  by (relation "measure nat") auto

declare bitLength.simps [simp del]

text \<open>The binary exponent of a positive real \<open>x\<close>: the \<open>e\<close> with \<open>2^e \<le> x < 2^(e+1)\<close>.\<close>

definition binExp :: "real \<Rightarrow> int" where
  "binExp x =
     (if 1 \<le> x then bitLength \<lfloor>x\<rfloor> - 1
      else
        let k = bitLength \<lfloor>1 / x\<rfloor> - 1
        in if 1 / x = 2 ^ nat k then - k else - k - 1)"

definition pow2 :: "int \<Rightarrow> real" where
  "pow2 e = (if 0 \<le> e then 2 ^ nat e else 1 / 2 ^ nat (- e))"

text \<open>The nearest integer to a non-negative real, a tie going to the even neighbour.\<close>

definition roundHalfEven :: "real \<Rightarrow> int" where
  "roundHalfEven m =
     (let f = \<lfloor>m\<rfloor>; r = m - of_int f
      in if r < 1 / 2 then f else if 1 / 2 < r then f + 1 else if even f then f else f + 1)"

text \<open>
  Rounding a positive real to 53 significant binary digits, or to a multiple of \<open>2^-1074\<close>
  below \<open>2^-1022\<close>, the exponent being unbounded above.
\<close>

definition roundMag :: "real \<Rightarrow> real" where
  "roundMag x =
     (let e = max (binExp x) (- 1022); q = pow2 (e - 52)
      in of_int (roundHalfEven (x / q)) * q)"

text \<open>
  The double nearest to a real, ties to even: a magnitude that rounds to \<open>2^1024\<close> or more
  gives an infinity, one that rounds to zero gives the zero of its sign. Every arithmetic
  operation below takes the exact result of its finite operands and rounds it so.
\<close>

definition roundD :: "real \<Rightarrow> jsnum" where
  "roundD x =
     (if x = 0 then Fin 0
      else
        let r = roundMag \<bar>x\<bar>
        in if pow2 1024 \<le> r then (if 0 < x then PInf else NInf)
           else if r = 0 then (if 0 < x then Fin 0 else NegZero)
           else Fin (if 0 < x then r else - r))"

text \<open>The real value of a finite number (0 for both zeros).\<close>

fun finVal :: "jsnum \<Rightarrow> real" where
  "finVal (Fin a) = a"
| "finVal _ = 0"

definition isZero :: "jsnum \<Rightarrow> bool" where
  "isZero x = (x = Fin 0 \<or> x = NegZero)"

definition isInf :: "jsnum \<Rightarrow> bool" where
  "isInf x = (x = PInf \<or> x = NInf)"

fun isNeg :: "jsnum \<Rightarrow> bool" where
  "isNeg (Fin a) = (a < 0)"
| "isNeg NegZero = True"
| "isNeg NInf = True"
| "isNeg PInf = False"
| "isNeg NaN = False"

fun jneg :: "jsnum \<Rightarrow> jsnum" where
  "jneg (Fin a) = (if a = 0 then NegZero else Fin (- a))"
| "jneg NegZero = Fin 0"
| "jneg NaN = NaN"
| "jneg PInf = NInf"
| "jneg NInf = PInf"

definition withSign :: "bool \<Rightarrow> jsnum \<Rightarrow> jsnum" where
  "withSign negative x = (if negative then jneg x else x)"

text \<open>
  Addition: the sum of two negative zeros is the negative zero, every other exact sum of
  zero is the positive zero, and infinities of opposite sign add up to \<^verbatim>\<open>NaN\<close>.
\<close>

definition jadd :: "jsnum \<Rightarrow> jsnum \<Rightarrow> jsnum" where
  "jadd x y =
     (if x = NaN \<or> y = NaN then NaN
      else if isInf x then (if isInf y \<and> x \<noteq> y then NaN else x)
      else if isInf y then y
      else if x = NegZero \<and> y = NegZero then NegZero
      else roundD (finVal x + finVal y))"

definition jsub :: "jsnum \<Rightarrow> jsnum \<Rightarrow> jsnum" where
  "jsub x y = jadd x (jneg y)"

text \<open>
  Multiplication and division: the sign of the result is negative exactly when the signs
  of the operands differ, also for zeros and infinities; zero times infinity, zero over zero
  and infinity over infinity are \<^verbatim>\<open>NaN\<close>; a nonzero value over a zero is an infinity.
\<close>

definition jmul :: "jsnum \<Rightarrow> jsnum \<Rightarrow> jsnum" where
  "jmul x y =
     (if x = NaN \<or> y = NaN then NaN
      else if isInf x \<or> isInf y then
        (if isZero x \<or> isZero y then NaN else withSign (isNeg x \<noteq> isNeg y) PInf)
      else withSign (isNeg x \<noteq> isNeg y) (roundD \<bar>finVal x * finVal y\<bar>))"

definition jdiv :: "jsnum \<Rightarrow> jsnum \<Rightarrow> jsnum" where
  "jdiv x y =
     (if x = NaN \<or> y = NaN then NaN
      else if isInf x then (if isInf y then NaN else withSign (isNeg x \<noteq> isNeg y) PInf)
      else if isInf y then withSign (isNeg x \<noteq> isNeg y) (Fin 0)
      else if isZero y then (if isZero x then NaN else withSign (isNeg x \<noteq> isNeg y) PInf)
      else withSign (isNeg x \<noteq> isNeg y) (roundD \<bar>finVal x / finVal y\<bar>))"

definition isNaN :: "jsnum \<Rightarrow> bool" where
  "isNaN x = (x = NaN)"

definition isFinite :: "jsnum \<Rightarrow> bool" where
  "isFinite x = (case x of Fin _ \<Rightarrow> True | NegZero \<Rightarrow> True | _ \<Rightarrow> False)"

text \<open>The value of \<^verbatim>\<open>x || 0\<close> for a number: \<^verbatim>\<open>NaN\<close> and both zeros are falsy.\<close>

definition orZero :: "jsnum \<Rightarrow> jsnum" where
  "orZero x = (if x = NaN \<or> isZero x then Fin 0 else x)"

subsection \<open>Strings\<close>

text \<open>
  Strings are lists of code units below 256. \<^verbatim>\<open>String.prototype.trim\<close> removes white
  space and line terminators at both ends; below 256 these are tab, line feed, vertical tab,
  form feed, carriage return, space and the no-break space.
\<close>

definition isWhiteSpace :: "char \<Rightarrow> bool" where
  "isWhiteSpace c = ((of_char c :: nat) \<in> {9, 10, 11, 12, 13, 32, 160})"

definition trim :: "string \<Rightarrow> string" where
  "trim s = rev (dropWhile isWhiteSpace (rev (dropWhile isWhiteSpace s)))"

definition isDigit :: "char \<Rightarrow> bool" where
  "isDigit c = (48 \<le> (of_char c :: nat) \<and> (of_char c :: nat) \<le> 57)"

definition digitsVal :: "string \<Rightarrow> int" where
  "digitsVal ds = foldl (\<lambda>n c. 10 * n + ((of_char c :: int) - 48)) 0 ds"

text \<open>
  The exponent part of a decimal literal: \<^verbatim>\<open>e\<close> or \<^verbatim>\<open>E\<close>, an optional sign and at
  least one digit; anything else is not part of the number and counts as exponent zero.
\<close>

definition exponentPart :: "string \<Rightarrow> int" where
  "exponentPart s =
     (case s of
        [] \<Rightarrow> 0
      | c # r \<Rightarrow>
          if c = CHR ''e'' \<or> c = CHR ''E'' then
            (case r of
               [] \<Rightarrow> 0
             | d # r' \<Rightarrow>
                 if d = CHR ''-'' then
                   (if takeWhile isDigit r' = [] then 0 else - digitsVal (takeWhile isDigit r'))
                 else if d = CHR ''+'' then digitsVal (takeWhile isDigit r')
                 else digitsVal (takeWhile isDigit r))
          else 0)"

definition scale10 :: "real \<Rightarrow> int \<Rightarrow> real" where
  "scale10 m e = (if 0 \<le> e then m * 10 ^ nat e else m / 10 ^ nat (- e))"

text \<open>
  The unsigned part of \<^verbatim>\<open>parseFloat\<close>: \<^verbatim>\<open>Infinity\<close>, or the longest prefix that is
  a decimal literal (digits, an optional fraction, an optional exponent), whose decimal value
  is rounded to the nearest double; \<^verbatim>\<open>NaN\<close> when there is no digit.
\<close>

definition parseUnsigned :: "string \<Rightarrow> jsnum" where
  "parseUnsigned u =
     (if take 8 u = ''Infinity'' then PInf
      else
        let ip = takeWhile isDigit u;
            r1 = dropWhile isDigit u;
            fp = (case r1 of [] \<Rightarrow> [] | c # r \<Rightarrow> if c = CHR ''.'' then takeWhile isDigit r else []);
            r2 = (case r1 of [] \<Rightarrow> [] | c # r \<Rightarrow> if c = CHR ''.'' then dropWhile isDigit r else r1)
        in if ip = [] \<and> fp = [] then NaN
           else roundD (scale10 (of_int (digitsVal (ip @ fp))) (exponentPart r2 - int (length fp))))"

text \<open>
  The built-in \<^verbatim>\<open>parseFloat\<close> on a string: leading white space is skipped, a sign is
  read, and what follows the number is ignored. The text \<^verbatim>\<open>-0\<close> reads as the negative
  zero.
\<close>

definition parseFloat :: "string \<Rightarrow> jsnum" where
  "parseFloat s =
     (case dropWhile isWhiteSpace s of
        [] \<Rightarrow> NaN
      | c # r \<Rightarrow>
          if c = CHR ''-'' then jneg (parseUnsigned r)
          else if c = CHR ''+'' then parseUnsigned r
          else parseUnsigned (c # r))"

text \<open>
  \<^verbatim>\<open>parseFloat\<close> applied to a value that is already a number converts it to a string
  and reads the string, which returns the number; the negative zero is written \<^verbatim>\<open>0\<close>
  and is read as the positive zero.
\<close>

definition parseFloatNum :: "jsnum \<Rightarrow> jsnum" where
  "parseFloatNum x = (if x = NegZero then Fin 0 else x)"

subsection \<open>Records of the store\<close>

record asset =
  asset_id :: string
  asset_name :: string
  asset_category :: string
  purchaseDate :: string
  purchasePrice :: jsnum
  currentValue :: jsnum
  associatedDebtId :: "string option"
  asset_notes :: string
  asset_createdAt :: string
  asset_updatedAt :: string

record liability =
  liability_id :: string
  liability_name :: string
  liability_category :: string
  originalAmount :: jsnum
  currentBalance :: jsnum
  interestRate :: jsnum
  startDate :: string
  associatedAssetId :: "string option"
  liability_notes :: string
  liability_createdAt :: string
  liability_updatedAt :: string

record snapshot =
  snapshot_id :: string
  snapshot_date :: string
  totalAssets :: jsnum
  totalLiabilities :: jsnum
  netWorth :: jsnum
  snapshot_notes :: string

record store =
  assets :: "asset list"
  liabilities :: "liability list"
  snapshots :: "snapshot list"
  editingAssetId :: "string option"
  editingLiabilityId :: "string option"

definition emptyStore :: store where
  "emptyStore = \<lparr>assets = [], liabilities = [], snapshots = [],
                 editingAssetId = None, editingLiabilityId = None\<rparr>"

text \<open>
  Truthiness of a value that is a string or \<^verbatim>\<open>null\<close>: \<^verbatim>\<open>null\<close> and the empty
  string are falsy.
\<close>

definition truthy :: "string option \<Rightarrow> bool" where
  "truthy v = (case v of None \<Rightarrow> False | Some s \<Rightarrow> s \<noteq> [])"

text \<open>The value of \<^verbatim>\<open>v || g\<close> for a string or \<^verbatim>\<open>null\<close> \<open>v\<close> and a string \<open>g\<close>.\<close>

definition orElse :: "string option \<Rightarrow> string \<Rightarrow> string" where
  "orElse v g = (case v of None \<Rightarrow> g | Some s \<Rightarrow> if s = [] then g else s)"

text \<open>The value of \<^verbatim>\<open>s || null\<close> for a string.\<close>

definition orNull :: "string \<Rightarrow> string option" where
  "orNull s = (if s = [] then None else Some s)"

subsection \<open>Calculations\<close>

definition calculateTotalAssets :: "store \<Rightarrow> jsnum" where
  "calculateTotalAssets st =
     foldl (\<lambda>total a. jadd total (parseFloatNum (currentValue a))) (Fin 0) (assets st)"

definition calculateTotalLiabilities :: "store \<Rightarrow> jsnum" where
  "calculateTotalLiabilities st =
     foldl (\<lambda>total l. jadd total (parseFloatNum (currentBalance l))) (Fin 0) (liabilities st)"

definition calculateNetWorth :: "store \<Rightarrow> jsnum" where
  "calculateNetWorth st = jsub (calculateTotalAssets st) (calculateTotalLiabilities st)"

definition calculateAssetEquity :: "store \<Rightarrow> asset \<Rightarrow> jsnum" where
  "calculateAssetEquity st a =
     (if \<not> truthy (associatedDebtId a) then currentValue a
      else
        (case find (\<lambda>l. Some (liability_id l) = associatedDebtId a) (liabilities st) of
           None \<Rightarrow> currentValue a
         | Some debt \<Rightarrow> jsub (currentValue a) (currentBalance debt)))"

definition calculatePayoffPercentage :: "liability \<Rightarrow> jsnum" where
  "calculatePayoffPercentage l =
     (let paid = jsub (originalAmount l) (currentBalance l)
      in jmul (jdiv paid (originalAmount l)) (Fin 100))"

subsection \<open>The CSV tokenizer\<close>

text \<open>
  The loop of \<^verbatim>\<open>parseCSVLine\<close> over the characters of the line, with its three
  variables \<^verbatim>\<open>current\<close>, \<^verbatim>\<open>inQuotes\<close> and \<^verbatim>\<open>result\<close>; after the last character
  the trimmed \<^verbatim>\<open>current\<close> is pushed.
\<close>

fun scanLine :: "string \<Rightarrow> bool \<Rightarrow> string list \<Rightarrow> string \<Rightarrow> string list" where
  "scanLine current inQuotes result [] = result @ [trim current]"
| "scanLine current inQuotes result (c # cs) =
     (if c = CHR 0x22 then scanLine current (\<not> inQuotes) result cs
      else if c = CHR '','' \<and> \<not> inQuotes then scanLine [] inQuotes (result @ [trim current]) cs
      else scanLine (current @ [c]) inQuotes result cs)"

definition parseCSVLine :: "string \<Rightarrow> string list" where
  "parseCSVLine line = scanLine [] False [] line"

subsection \<open>What the environment supplies\<close>

text \<open>
  \<^verbatim>\<open>generateId()\<close> reads the clock and a random number, and a time stamp is
  \<^verbatim>\<open>new Date().toISOString()\<close>. The values these calls return while one record is
  built are arguments of the model: the generated id, and the first and the second time
  stamp read.
\<close>

record fresh =
  generatedId :: string
  createdStamp :: string
  updatedStamp :: string

datatype js_error = TypeError | ReferenceError

text \<open>
  A handler either runs to its end or raises; the store it leaves behind is kept in both
  cases, since the arrays are mutated in place before a later statement may raise.
\<close>

datatype outcome = Completed store | Threw js_error store

fun stateOf :: "outcome \<Rightarrow> store" where
  "stateOf (Completed st) = st"
| "stateOf (Threw e st) = st"

fun completed :: "outcome \<Rightarrow> bool" where
  "completed (Completed st) = True"
| "completed (Threw e st) = False"

text \<open>The functions that \<^verbatim>\<open>app.js\<close> declares; a call of any other global name raises.\<close>

definition declaredFunctions :: "string list" where
  "declaredFunctions =
     [''loadData'', ''saveData'', ''initializeEventListeners'', ''switchTab'',
      ''calculateTotalAssets'', ''calculateTotalLiabilities'', ''calculateNetWorth'',
      ''calculateAssetEquity'', ''calculateRealEstateEquity'', ''calculateVehicleEquity'',
      ''calculatePayoffPercentage'', ''updateAllDisplays'', ''updateOverview'',
      ''updateBreakdown'', ''displaySnapshots'', ''displayAssets'', ''displayLiabilities'',
      ''updateStats'', ''formatCurrency'', ''formatDate'', ''generateId'', ''openAssetModal'',
      ''openLiabilityModal'', ''closeAllModals'', ''updateAssetDebtOptions'',
      ''updateLiabilityAssetOptions'', ''handleAssetSubmit'', ''handleLiabilitySubmit'',
      ''editAsset'', ''deleteAsset'', ''editLiability'', ''deleteLiability'', ''takeSnapshot'',
      ''exportTemplate'', ''exportData'', ''downloadCSV'', ''processImport'', ''parseCSV'',
      ''parseCSVLine'', ''deleteAllData'']"

text \<open>
  A call of a display function, which does not change the store: it returns when the name
  is declared and raises \<^verbatim>\<open>ReferenceError\<close> otherwise.
\<close>

definition callDisplay :: "string \<Rightarrow> store \<Rightarrow> outcome" where
  "callDisplay f st = (if f \<in> set declaredFunctions then Completed st else Threw ReferenceError st)"

subsection \<open>Redrawing\<close>

text \<open>
  The names that every object inherits from \<^verbatim>\<open>Object.prototype\<close> in a browser.
\<close>

definition objectPrototypeKeys :: "string list" where
  "objectPrototypeKeys =
     [''constructor'', ''__defineGetter__'', ''__defineSetter__'', ''hasOwnProperty'',
      ''__lookupGetter__'', ''__lookupSetter__'', ''isPrototypeOf'', ''propertyIsEnumerable'',
      ''toString'', ''valueOf'', ''__proto__'', ''toLocaleString'']"

text \<open>
  \<^verbatim>\<open>displayAssets\<close> and \<^verbatim>\<open>displayLiabilities\<close> group the records in an object
  literal: \<^verbatim>\<open>if (!grouped[c]) grouped[c] = []; grouped[c].push(record)\<close>. For a category
  \<open>c\<close> that is an inherited name the lookup finds a function, or the prototype itself, which
  is truthy and has no \<^verbatim>\<open>push\<close>, and the call raises \<^verbatim>\<open>TypeError\<close>.
\<close>

definition groupingRaises :: "string list \<Rightarrow> bool" where
  "groupingRaises categories = (\<exists>c \<in> set categories. c \<in> set objectPrototypeKeys)"

text \<open>
  \<^verbatim>\<open>updateAllDisplays\<close>, as far as the store decides it: the overview and the breakdown
  are written without raising, then the two lists are grouped. What is drawn is not
  modelled, and the page is taken to have the elements that the functions look up.
\<close>

definition updateAllDisplays :: "store \<Rightarrow> outcome" where
  "updateAllDisplays st =
     (if groupingRaises (map asset_category (assets st)) \<or>
         groupingRaises (map liability_category (liabilities st))
      then Threw TypeError st else Completed st)"

subsection \<open>Modal management and form submission\<close>

definition openAssetModal :: "string option \<Rightarrow> store \<Rightarrow> store" where
  "openAssetModal assetId st = st\<lparr>editingAssetId := assetId\<rparr>"

definition openLiabilityModal :: "string option \<Rightarrow> store \<Rightarrow> store" where
  "openLiabilityModal liabilityId st = st\<lparr>editingLiabilityId := liabilityId\<rparr>"

definition closeAllModals :: "store \<Rightarrow> store" where
  "closeAllModals st = st\<lparr>editingAssetId := None, editingLiabilityId := None\<rparr>"

text \<open>
  The three calls that end both submit handlers: \<^verbatim>\<open>saveData(); updateAllDisplays();
  closeAllModals();\<close>. Storage is taken to accept the write. When redrawing raises, the
  modals are not closed and the editing ids stay as they are.
\<close>

definition afterWrite :: "store \<Rightarrow> outcome" where
  "afterWrite st =
     (case updateAllDisplays st of
        Threw e s \<Rightarrow> Threw e s
      | Completed s \<Rightarrow> Completed (closeAllModals s))"

text \<open>The values of the fields of the asset form and of the liability form.\<close>

record assetForm =
  form_asset_name :: string
  form_asset_category :: string
  form_asset_purchase_date :: string
  form_asset_purchase_price :: string
  form_asset_current_value :: string
  form_asset_associated_debt :: string
  form_asset_notes :: string

record liabilityForm =
  form_liability_name :: string
  form_liability_category :: string
  form_liability_original_amount :: string
  form_liability_current_balance :: string
  form_liability_interest_rate :: string
  form_liability_start_date :: string
  form_liability_associated_asset :: string
  form_liability_notes :: string

text \<open>\<^verbatim>\<open>findIndex\<close>: the position of the first element that satisfies the test, or -1.\<close>

fun findIndex :: "('a \<Rightarrow> bool) \<Rightarrow> 'a list \<Rightarrow> int" where
  "findIndex P [] = - 1"
| "findIndex P (x # xs) =
     (if P x then 0 else (let i = findIndex P xs in if i < 0 then - 1 else i + 1))"

text \<open>
  \<^verbatim>\<open>xs[index] = v\<close> for an index that \<^verbatim>\<open>findIndex\<close> returned: a position of the
  array is overwritten; with -1 a property named "-1" is set and no element changes.
\<close>

definition assignIndex :: "'a list \<Rightarrow> int \<Rightarrow> 'a \<Rightarrow> 'a list" where
  "assignIndex xs i v = (if 0 \<le> i \<and> nat i < length xs then xs[nat i := v] else xs)"

text \<open>The object literal of \<^verbatim>\<open>handleAssetSubmit\<close>, given the id and the two time stamps.\<close>

definition assetData :: "string \<Rightarrow> assetForm \<Rightarrow> string \<Rightarrow> string \<Rightarrow> asset" where
  "assetData i f created updated =
     \<lparr>asset_id = i,
      asset_name = form_asset_name f,
      asset_category = form_asset_category f,
      purchaseDate = form_asset_purchase_date f,
      purchasePrice = parseFloat (form_asset_purchase_price f),
      currentValue = parseFloat (form_asset_current_value f),
      associatedDebtId = orNull (form_asset_associated_debt f),
      asset_notes = form_asset_notes f,
      asset_createdAt = created,
      asset_updatedAt = updated\<rparr>"

text \<open>
  \<^verbatim>\<open>handleAssetSubmit\<close>. With a truthy editing id the stored record of that id gives
  \<^verbatim>\<open>createdAt\<close>; when no asset has the id, \<^verbatim>\<open>find\<close> returns \<^verbatim>\<open>undefined\<close> and
  reading its property raises \<^verbatim>\<open>TypeError\<close> before anything is written. After the
  write the handler saves, redraws and closes the modals. No field is checked.
\<close>

definition handleAssetSubmit :: "fresh \<Rightarrow> assetForm \<Rightarrow> store \<Rightarrow> outcome" where
  "handleAssetSubmit fr f st =
     (if truthy (editingAssetId st) then
        (case find (\<lambda>a. Some (asset_id a) = editingAssetId st) (assets st) of
           None \<Rightarrow> Threw TypeError st
         | Some old \<Rightarrow>
             let index = findIndex (\<lambda>a. Some (asset_id a) = editingAssetId st) (assets st);
                 new = assetData (orElse (editingAssetId st) (generatedId fr)) f
                         (asset_createdAt old) (updatedStamp fr)
             in afterWrite (st\<lparr>assets := assignIndex (assets st) index new\<rparr>))
      else
        let new = assetData (orElse (editingAssetId st) (generatedId fr)) f
                         (createdStamp fr) (updatedStamp fr)
        in afterWrite (st\<lparr>assets := assets st @ [new]\<rparr>))"

definition liabilityData :: "string \<Rightarrow> liabilityForm \<Rightarrow> string \<Rightarrow> string \<Rightarrow> liability" where
  "liabilityData i f created updated =
     \<lparr>liability_id = i,
      liability_name = form_liability_name f,
      liability_category = form_liability_category f,
      originalAmount = parseFloat (form_liability_original_amount f),
      currentBalance = parseFloat (form_liability_current_balance f),
      interestRate = orZero (parseFloat (form_liability_interest_rate f)),
      startDate = form_liability_start_date f,
      associatedAssetId = orNull (form_liability_associated_asset f),
      liability_notes = form_liability_notes f,
      liability_createdAt = created,
      liability_updatedAt = updated\<rparr>"

definition handleLiabilitySubmit :: "fresh \<Rightarrow> liabilityForm \<Rightarrow> store \<Rightarrow> outcome" where
  "handleLiabilitySubmit fr f st =
     (if truthy (editingLiabilityId st) then
        (case find (\<lambda>l. Some (liability_id l) = editingLiabilityId st) (liabilities st) of
           None \<Rightarrow> Threw TypeError st
         | Some old \<Rightarrow>
             let index = findIndex (\<lambda>l. Some (liability_id l) = editingLiabilityId st) (liabilities st);
                 new = liabilityData (orElse (editingLiabilityId st) (generatedId fr)) f
                         (liability_createdAt old) (updatedStamp fr)
             in afterWrite (st\<lparr>liabilities := assignIndex (liabilities st) index new\<rparr>))
      else
        let new = liabilityData (orElse (editingLiabilityId st) (generatedId fr)) f
                         (createdStamp fr) (updatedStamp fr)
        in afterWrite (st\<lparr>liabilities := liabilities st @ [new]\<rparr>))"

subsection \<open>Deleting records\<close>

text \<open>
  The first argument is the answer of the confirmation dialog. The result is the store after
  the handler: a confirmed deletion also saves and redraws, which does not change the store.
\<close>

definition deleteAsset :: "bool \<Rightarrow> string \<Rightarrow> store \<Rightarrow> store" where
  "deleteAsset confirmed i st =
     (if confirmed then st\<lparr>assets := filter (\<lambda>a. asset_id a \<noteq> i) (assets st)\<rparr> else st)"

definition deleteLiability :: "bool \<Rightarrow> string \<Rightarrow> store \<Rightarrow> store" where
  "deleteLiability confirmed i st =
     (if confirmed then st\<lparr>liabilities := filter (\<lambda>l. liability_id l \<noteq> i) (liabilities st)\<rparr>
      else st)"

definition deleteAllData :: "bool \<Rightarrow> bool \<Rightarrow> store \<Rightarrow> store" where
  "deleteAllData confirmed1 confirmed2 st =
     (if confirmed1 then
        (if confirmed2 then st\<lparr>assets := [], liabilities := [], snapshots := []\<rparr> else st)
      else st)"

subsection \<open>Snapshots\<close>

text \<open>
  \<^verbatim>\<open>takeSnapshot\<close>: the second argument is what the prompt returned (\<^verbatim>\<open>null\<close> when
  it was cancelled). After the push and the save the function calls
  \<^verbatim>\<open>updateDashboard()\<close>.
\<close>

definition takeSnapshot :: "fresh \<Rightarrow> string option \<Rightarrow> store \<Rightarrow> outcome" where
  "takeSnapshot fr notes st =
     (let snapshot =
            \<lparr>snapshot_id = generatedId fr,
             snapshot_date = createdStamp fr,
             totalAssets = calculateTotalAssets st,
             totalLiabilities = calculateTotalLiabilities st,
             netWorth = calculateNetWorth st,
             snapshot_notes = (case notes of None \<Rightarrow> [] | Some n \<Rightarrow> n)\<rparr>
      in callDisplay ''updateDashboard'' (st\<lparr>snapshots := snapshots st @ [snapshot]\<rparr>))"

subsection \<open>The CSV schema and import\<close>

definition csvHeader :: string where
  "csvHeader = ''Type,Name,Category,Purchase Date,Purchase Price,Current Value,Original Amount,Current Balance,Interest Rate,Start Date,Notes''"

text \<open>
  The row that \<^verbatim>\<open>exportData\<close> writes for a liability, as far as source line 719 is
  JavaScript: the text of its template and its interpolations up to the double quote that
  opens the notes. After the category come three commas, where the header and the rows of
  \<^verbatim>\<open>exportTemplate\<close> have four. The interpolation that follows,
  \<^verbatim>\<open>${liability.notes || '"}"\n`;\<close>, opens a string literal that is never closed (the
  asset row has \<^verbatim>\<open>${asset.notes || ''}"\n`;\<close>), so the function as it stands does not
  parse and what it writes after this point is not determined by the source. Interpolating
  a number converts it with the built-in number-to-string conversion, the argument
  \<open>numToString\<close>.
\<close>

definition liabilityRowStart :: "(jsnum \<Rightarrow> string) \<Rightarrow> liability \<Rightarrow> string" where
  "liabilityRowStart numToString l =
     ''Liability,'' @ [CHR 0x22] @ liability_name l @ [CHR 0x22] @ '','' @ liability_category l @
     '',,,'' @ numToString (originalAmount l) @ '','' @ numToString (currentBalance l) @ '','' @
     numToString (interestRate l) @ '','' @ startDate l @ '','' @ [CHR 0x22]"

text \<open>The text of \<^verbatim>\<open>exportTemplate\<close>: the header and five example rows.\<close>

definition exportTemplate :: string where
  "exportTemplate =
     csvHeader @ [CHR 0x0A] @
     ''Asset,Example Home,Real Estate,2020-01-01,300000,350000,,,,,My primary residence'' @ [CHR 0x0A] @
     ''Asset,Example Car,Vehicle,2021-06-15,25000,18000,,,,,2021 Honda Accord'' @ [CHR 0x0A] @
     ''Asset,Savings Account,Bank Account,2019-01-01,0,15000,,,,,Emergency fund'' @ [CHR 0x0A] @
     ''Liability,Home Mortgage,Mortgage,,,,250000,240000,3.5,2020-01-01,30-year fixed'' @ [CHR 0x0A] @
     ''Liability,Car Loan,Auto Loan,,,,25000,12000,4.5,2021-06-15,60-month term''"

text \<open>
  \<^verbatim>\<open>s.split(sep)\<close> for a one-character separator: the pieces between the separators,
  one piece more than there are separators.
\<close>

fun splitStr :: "char \<Rightarrow> string \<Rightarrow> string list" where
  "splitStr sep [] = [[]]"
| "splitStr sep (c # cs) =
     (if c = sep then [] # splitStr sep cs
      else (case splitStr sep cs of [] \<Rightarrow> [[c]] | piece # pieces \<Rightarrow> (c # piece) # pieces))"

text \<open>
  The two object literals of \<^verbatim>\<open>parseCSV\<close>, built from the fields of a line. \<open>fr\<close>
  holds what \<^verbatim>\<open>generateId\<close> and the clock return for this line, \<open>flds\<close> is the
  array \<^verbatim>\<open>fields\<close>; it is read only when it has at least 11 elements.
\<close>

definition importedAsset :: "fresh \<Rightarrow> string list \<Rightarrow> asset" where
  "importedAsset fr flds =
     \<lparr>asset_id = generatedId fr,
      asset_name = flds ! 1,
      asset_category = flds ! 2,
      purchaseDate = flds ! 3,
      purchasePrice = parseFloat (flds ! 4),
      currentValue = parseFloat (flds ! 5),
      associatedDebtId = None,
      asset_notes = flds ! 10,
      asset_createdAt = createdStamp fr,
      asset_updatedAt = updatedStamp fr\<rparr>"

definition importedLiability :: "fresh \<Rightarrow> string list \<Rightarrow> liability" where
  "importedLiability fr flds =
     \<lparr>liability_id = generatedId fr,
      liability_name = flds ! 1,
      liability_category = flds ! 2,
      originalAmount = parseFloat (flds ! 6),
      currentBalance = parseFloat (flds ! 7),
      interestRate = orZero (parseFloat (flds ! 8)),
      startDate = flds ! 9,
      associatedAssetId = None,
      liability_notes = flds ! 10,
      liability_createdAt = createdStamp fr,
      liability_updatedAt = updatedStamp fr\<rparr>"

text \<open>
  The body of the loop of \<^verbatim>\<open>parseCSV\<close> for one line. The result carries the store and
  the two counters.
\<close>

definition parseRow :: "fresh \<Rightarrow> string \<Rightarrow> store \<times> nat \<times> nat \<Rightarrow> store \<times> nat \<times> nat" where
  "parseRow fr line acc =
     (case acc of (st, assetsAdded, liabilitiesAdded) \<Rightarrow>
        let fields = parseCSVLine line
        in if length fields < 11 then acc
           else
             let type = trim (fields ! 0)
             in if type = ''Asset'' then
                  let a = importedAsset fr fields
                  in if asset_name a \<noteq> [] \<and> asset_category a \<noteq> [] \<and> purchaseDate a \<noteq> [] \<and>
                        \<not> isNaN (purchasePrice a) \<and> \<not> isNaN (currentValue a)
                     then (st\<lparr>assets := assets st @ [a]\<rparr>, Suc assetsAdded, liabilitiesAdded)
                     else acc
                else if type = ''Liability'' then
                  let l = importedLiability fr fields
                  in if liability_name l \<noteq> [] \<and> liability_category l \<noteq> [] \<and>
                        \<not> isNaN (originalAmount l) \<and> \<not> isNaN (currentBalance l) \<and> startDate l \<noteq> []
                     then (st\<lparr>liabilities := liabilities st @ [l]\<rparr>, assetsAdded, Suc liabilitiesAdded)
                     else acc
                else acc)"

text \<open>The loop over the lines from index \<open>i\<close> on; \<open>env i\<close> is the environment of line \<open>i\<close>.\<close>

fun parseRows :: "(nat \<Rightarrow> fresh) \<Rightarrow> nat \<Rightarrow> string list \<Rightarrow> store \<times> nat \<times> nat \<Rightarrow> store \<times> nat \<times> nat" where
  "parseRows env i [] acc = acc"
| "parseRows env i (line # rest) acc = parseRows env (Suc i) rest (parseRow (env i) line acc)"

text \<open>
  \<^verbatim>\<open>parseCSV\<close>: the text is split at line feeds, lines that are blank after trimming
  are dropped, and the loop starts at index 1, so the first remaining line is not read.
  The result is the store with the two counts.
\<close>

definition csvLines :: "string \<Rightarrow> string list" where
  "csvLines csvText = filter (\<lambda>line. trim line \<noteq> []) (splitStr (CHR 0x0A) csvText)"

definition parseCSV :: "(nat \<Rightarrow> fresh) \<Rightarrow> string \<Rightarrow> store \<Rightarrow> store \<times> nat \<times> nat" where
  "parseCSV env csvText st = parseRows env 1 (drop 1 (csvLines csvText)) (st, 0, 0)"

subsection \<open>User actions\<close>

datatype action =
    SubmitAsset fresh assetForm
  | SubmitLiability fresh liabilityForm
  | DeleteAsset bool string
  | DeleteLiability bool string
  | OpenAssetModal "string option"
  | OpenLiabilityModal "string option"
  | CloseAllModals
  | TakeSnapshot fresh "string option"
  | ImportCSV "nat \<Rightarrow> fresh" string
  | DeleteAllData bool bool

text \<open>The store after a handler has run, whether it returned or raised.\<close>

fun step :: "action \<Rightarrow> store \<Rightarrow> store" where
  "step (SubmitAsset fr f) st = stateOf (handleAssetSubmit fr f st)"
| "step (SubmitLiability fr f) st = stateOf (handleLiabilitySubmit fr f st)"
| "step (DeleteAsset c i) st = deleteAsset c i st"
| "step (DeleteLiability c i) st = deleteLiability c i st"
| "step (OpenAssetModal i) st = openAssetModal i st"
| "step (OpenLiabilityModal i) st = openLiabilityModal i st"
| "step CloseAllModals st = closeAllModals st"
| "step (TakeSnapshot fr notes) st = stateOf (takeSnapshot fr notes st)"
| "step (ImportCSV env csvText) st = fst (parseCSV env csvText st)"
| "step (DeleteAllData c1 c2) st = deleteAllData c1 c2 st"

subsection \<open>Sums without rounding\<close>

text \<open>
  Integers below \<open>2^53\<close> in magnitude whose partial sums, added in order to \<open>acc\<close>, all stay
  below \<open>2^53\<close> in magnitude: then no addition of the running total rounds.
\<close>

fun exactSums :: "int \<Rightarrow> int list \<Rightarrow> bool" where
  "exactSums acc [] = True"
| "exactSums acc (k # ks) =
     (\<bar>k\<bar> < 2 ^ 53 \<and> \<bar>acc + k\<bar> < 2 ^ 53 \<and> exactSums (acc + k) ks)"

subsection \<open>The scenario of the specification\<close>

text \<open>
  A home bought for 300000 and now worth 350000, linked to a mortgage of 250000 with a
  balance of 240000.
\<close>

definition sampleFresh :: fresh where
  "sampleFresh = \<lparr>generatedId = ''k3x9'', createdStamp = ''2024-01-01T00:00:00.000Z'',
                   updatedStamp = ''2024-01-01T00:00:00.001Z''\<rparr>"

definition homeAsset :: asset where
  "homeAsset =
     \<lparr>asset_id = ''a1'', asset_name = ''Home'', asset_category = ''Real Estate'',
      purchaseDate = ''2020-01-01'', purchasePrice = Fin 300000, currentValue = Fin 350000,
      associatedDebtId = Some ''l1'', asset_notes = [],
      asset_createdAt = ''2023-05-01T10:00:00.000Z'', asset_updatedAt = ''2023-05-01T10:00:00.000Z''\<rparr>"

definition homeMortgage :: liability where
  "homeMortgage =
     \<lparr>liability_id = ''l1'', liability_name = ''Home Mortgage'', liability_category = ''Mortgage'',
      originalAmount = Fin 250000, currentBalance = Fin 240000, interestRate = Fin 3.5,
      startDate = ''2020-01-01'', associatedAssetId = Some ''a1'', liability_notes = [],
      liability_createdAt = ''2023-05-01T10:05:00.000Z'',
      liability_updatedAt = ''2023-05-01T10:05:00.000Z''\<rparr>"

definition scenarioStore :: store where
  "scenarioStore = emptyStore\<lparr>assets := [homeAsset], liabilities := [homeMortgage]\<rparr>"

subsection \<open>Sequences of actions\<close>

fun confirmedDeleteAll :: "action \<Rightarrow> bool" where
  "confirmedDeleteAll (DeleteAllData c1 c2) = (c1 \<and> c2)"
| "confirmedDeleteAll _ = False"

definition run :: "action list \<Rightarrow> store \<Rightarrow> store" where
  "run acts st = foldl (\<lambda>s a. step a s) st acts"

subsection \<open>Further sample data\<close>

definition carAsset :: asset where
  "carAsset =
     \<lparr>asset_id = ''a2'', asset_name = ''Example Car'', asset_category = ''Vehicle'',
      purchaseDate = ''2021-06-15'', purchasePrice = Fin 25000, currentValue = Fin 18000,
      associatedDebtId = None, asset_notes = ''2021 Honda Accord'',
      asset_createdAt = ''2023-05-02T09:00:00.000Z'', asset_updatedAt = ''2023-05-02T09:00:00.000Z''\<rparr>"

definition reappraisal :: assetForm where
  "reappraisal =
     \<lparr>form_asset_name = ''Home'', form_asset_category = ''Real Estate'',
      form_asset_purchase_date = ''2020-01-01'', form_asset_purchase_price = ''300000'',
      form_asset_current_value = ''365000'', form_asset_associated_debt = ''l1'',
      form_asset_notes = ''reappraised''\<rparr>"

definition blankAssetForm :: assetForm where
  "blankAssetForm =
     \<lparr>form_asset_name = [], form_asset_category = [], form_asset_purchase_date = [],
      form_asset_purchase_price = [], form_asset_current_value = ''abc'',
      form_asset_associated_debt = [], form_asset_notes = []\<rparr>"


text \<open>Assets worth \<open>10^16\<close>, 1 and 1: each value and their sum are doubles.\<close>

definition driftStore :: store where
  "driftStore =
     emptyStore\<lparr>assets := [homeAsset\<lparr>currentValue := Fin 10000000000000000\<rparr>,
                           carAsset\<lparr>currentValue := Fin 1\<rparr>,
                           carAsset\<lparr>asset_id := ''a3'', currentValue := Fin 1\<rparr>]\<rparr>"

definition constructorForm :: assetForm where
  "constructorForm = reappraisal\<lparr>form_asset_category := ''constructor''\<rparr>"

definition garageStore :: store where
  "garageStore = emptyStore\<lparr>assets := [homeAsset, carAsset], liabilities := [homeMortgage]\<rparr>"

text \<open>The scenario after a snapshot, and actions that follow it.\<close>

definition afterSnapshot :: store where
  "afterSnapshot = stateOf (takeSnapshot sampleFresh None scenarioStore)"

definition laterActions :: "action list" where
  "laterActions =
     [OpenAssetModal (Some ''a1''), SubmitAsset sampleFresh reappraisal, DeleteLiability True ''l1'']"

subsection \<open>The rows that the import accepts\<close>

text \<open>
  The test that \<^verbatim>\<open>parseCSV\<close> applies to a line before it pushes an asset, and the one
  before it pushes a liability, as predicates on the line; and the records that a list of
  lines contributes, line \<open>k\<close> of the loop being built in the environment \<open>env k\<close>.
\<close>

definition acceptsAsset :: "string \<Rightarrow> bool" where
  "acceptsAsset line =
     (let fields = parseCSVLine line
      in 11 \<le> length fields \<and> trim (fields ! 0) = ''Asset'' \<and>
         fields ! 1 \<noteq> [] \<and> fields ! 2 \<noteq> [] \<and> fields ! 3 \<noteq> [] \<and>
         parseFloat (fields ! 4) \<noteq> NaN \<and> parseFloat (fields ! 5) \<noteq> NaN)"

definition acceptsLiability :: "string \<Rightarrow> bool" where
  "acceptsLiability line =
     (let fields = parseCSVLine line
      in 11 \<le> length fields \<and> trim (fields ! 0) = ''Liability'' \<and>
         fields ! 1 \<noteq> [] \<and> fields ! 2 \<noteq> [] \<and>
         parseFloat (fields ! 6) \<noteq> NaN \<and> parseFloat (fields ! 7) \<noteq> NaN \<and> fields ! 9 \<noteq> [])"

definition assetsOfRows :: "(nat \<Rightarrow> fresh) \<Rightarrow> nat \<Rightarrow> string list \<Rightarrow> asset list" where
  "assetsOfRows env i rows =
     map (\<lambda>(k, r). importedAsset (env k) (parseCSVLine r))
       (filter (\<lambda>(k, r). acceptsAsset r) (zip [i..<i + length rows] rows))"

definition liabilitiesOfRows :: "(nat \<Rightarrow> fresh) \<Rightarrow> nat \<Rightarrow> string list \<Rightarrow> liability list" where
  "liabilitiesOfRows env i rows =
     map (\<lambda>(k, r). importedLiability (env k) (parseCSVLine r))
       (filter (\<lambda>(k, r). acceptsLiability r) (zip [i..<i + length rows] rows))"

text \<open>Sample inputs of the import.\<close>

definition sampleEnv :: "nat \<Rightarrow> fresh" where
  "sampleEnv i = sampleFresh\<lparr>generatedId := ''k3x9'' @ replicate i (CHR ''z'')\<rparr>"

definition messyCSV :: string where
  "messyCSV =
     csvHeader @ [CHR 0x0A] @
     ''Asset,Example Home,Real Estate,2020-01-01,300,350,,,,,My primary residence'' @ [CHR 0x0A] @
     ''Asset,Short Row,Cash,2020-01-01,5,5'' @ [CHR 0x0A] @
     ''Asset,No Price,Cash,2020-01-01,abc,5,,,,,'' @ [CHR 0x0A] @
     [CHR 0x0A] @
     ''Asset,,Cash,2020-01-01,5,5,,,,,'' @ [CHR 0x0A] @
     ''Bond,Treasury,Cash,2020-01-01,5,5,,,,,'' @ [CHR 0x0A] @
     ''Liability,Car Loan,Auto Loan,,,,250,120,4.5,2021-06-15,60-month term'' @ [CHR 0x0A]"

definition infinityCSV :: string where
  "infinityCSV =
     csvHeader @ [CHR 0x0A] @ ''Asset,Gold,Collectibles,2020-01-01,Infinity,5,,,,,'' @ [CHR 0x0A]"

subsection \<open>Number-to-string on integers\<close>

text \<open>
  The built-in number-to-string conversion where it can be written down in this model: on
  integers below \<open>10^21\<close> it gives the decimal digits with a minus sign for negative values,
  and it gives \<^verbatim>\<open>NaN\<close>, \<^verbatim>\<open>Infinity\<close> and \<^verbatim>\<open>-Infinity\<close>. On other values it
  is not the conversion of the language (it writes the integer part only); it is used below
  on integers only.
\<close>

definition digitChar :: "nat \<Rightarrow> char" where
  "digitChar d = ''0123456789'' ! d"

fun natDigits :: "nat \<Rightarrow> string" where
  "natDigits n =
     (if n < 10 then [digitChar n] else natDigits (n div 10) @ [digitChar (n mod 10)])"

declare natDigits.simps [simp del]

definition integerToString :: "jsnum \<Rightarrow> string" where
  "integerToString x =
     (case x of
        NaN \<Rightarrow> ''NaN''
      | PInf \<Rightarrow> ''Infinity''
      | NInf \<Rightarrow> ''-Infinity''
      | NegZero \<Rightarrow> ''0''
      | Fin r \<Rightarrow> if r < 0 then ''-'' @ natDigits (nat \<lfloor>- r\<rfloor>) else natDigits (nat \<lfloor>r\<rfloor>))"

subsection \<open>The cells of an exported liability row\<close>

text \<open>
  A liability whose cells before the notes do not break the row: no double quote in the
  name, no double quote or comma in the bare cells.
\<close>

definition bareCell :: "string \<Rightarrow> bool" where
  "bareCell s = (CHR 0x22 \<notin> set s \<and> CHR '','' \<notin> set s)"

definition plainLiability :: "(jsnum \<Rightarrow> string) \<Rightarrow> liability \<Rightarrow> bool" where
  "plainLiability numToString l =
     (CHR 0x22 \<notin> set (liability_name l) \<and> bareCell (liability_category l) \<and>
      bareCell (numToString (originalAmount l)) \<and> bareCell (numToString (currentBalance l)) \<and>
      bareCell (numToString (interestRate l)) \<and> bareCell (startDate l))"

text \<open>
  The commas of a text that the tokenizer takes as separators, given whether it is inside
  quotes where the text begins.
\<close>

fun bareCommas :: "bool \<Rightarrow> string \<Rightarrow> nat" where
  "bareCommas inQuotes [] = 0"
| "bareCommas inQuotes (c # cs) =
     (if c = CHR 0x22 then bareCommas (\<not> inQuotes) cs
      else if c = CHR '','' \<and> \<not> inQuotes then Suc (bareCommas inQuotes cs)
      else bareCommas inQuotes cs)"

text \<open>Sample data: a mortgage with integer amounts, and the end of a row with its notes.\<close>

definition intMortgage :: liability where
  "intMortgage = homeMortgage\<lparr>interestRate := Fin 4\<rparr>"

definition notesEnd :: string where
  "notesEnd = ''30-year fixed, no prepayment'' @ [CHR 0x22]"

section \<open>Properties\<close>

subsection \<open>Rounding\<close>

lemma bitLength_pos: "0 < n \<Longrightarrow> 0 < bitLength n"
proof -
  assume "0 < n"
  moreover have "0 \<le> bitLength m" for m
    by (induction m rule: bitLength.induct) (subst bitLength.simps, simp)
  ultimately show ?thesis
    by (subst bitLength.simps) (simp add: add_pos_nonneg)
qed

lemma bitLength_le: "n < 2 ^ w \<Longrightarrow> bitLength n \<le> int w"
proof (induction n arbitrary: w rule: bitLength.induct)
  case (1 n)
  show ?case
  proof (cases "n \<le> 0")
    case True
    then show ?thesis by (subst bitLength.simps) simp
  next
    case False
    then obtain v where w: "w = Suc v"
      using "1.prems" by (cases w) auto
    have "n div 2 < 2 ^ v"
      using "1.prems" w by auto
    then have "bitLength (n div 2) \<le> int v"
      using "1.IH" False by simp
    then show ?thesis
      using False w by (subst bitLength.simps) simp
  qed
qed

lemma roundHalfEven_int: "roundHalfEven (of_int z) = z"
  by (simp add: roundHalfEven_def)

text \<open>An integer below \<open>2^53\<close> in magnitude is a double: rounding leaves it as it is.\<close>

lemma roundMag_int:
  assumes "0 < k" "k < 2 ^ 53"
  shows "roundMag (of_int k) = of_int k"
proof -
  let ?e = "bitLength k - 1"
  have b1: "0 < bitLength k"
    using assms(1) by (rule bitLength_pos)
  have b2: "bitLength k \<le> 53"
    using bitLength_le [OF assms(2)] by simp
  have e: "binExp (of_int k) = ?e"
    using assms(1) by (simp add: binExp_def)
  have m: "max ?e (- 1022) = ?e"
    using b1 by simp
  define d where "d = nat (52 - ?e)"
  have q: "pow2 (?e - 52) = 1 / 2 ^ d"
    using b1 b2 by (auto simp: pow2_def d_def)
  have "real_of_int k / (1 / 2 ^ d) = of_int (k * 2 ^ d)"
    by simp
  then have r: "roundHalfEven (real_of_int k / (1 / 2 ^ d)) = k * 2 ^ d"
    using roundHalfEven_int [of "k * 2 ^ d"] by simp
  show ?thesis
    unfolding roundMag_def e m q Let_def r by simp
qed

lemma roundD_int:
  assumes "\<bar>k\<bar> < 2 ^ 53"
  shows "roundD (of_int k) = Fin (of_int k)"
proof (cases "k = 0")
  case True
  then show ?thesis by (simp add: roundD_def)
next
  case False
  have p: "0 < \<bar>k\<bar>" using False by simp
  have m: "roundMag \<bar>real_of_int k\<bar> = of_int \<bar>k\<bar>"
    using roundMag_int [OF p assms] by simp
  have "real_of_int \<bar>k\<bar> < 2 ^ 53"
    using assms by (metis of_int_less_numeral_power_cancel_iff)
  also have "(2::real) ^ 53 \<le> 2 ^ 1024"
    by simp
  finally have lt: "real_of_int \<bar>k\<bar> < pow2 1024"
    by (simp add: pow2_def)
  show ?thesis
    unfolding roundD_def m Let_def using False lt by auto
qed

lemma roundD_numeral:
  "numeral n < (2::int) ^ 53 \<Longrightarrow> roundD (numeral n) = Fin (numeral n)"
  using roundD_int [of "numeral n"] by simp

lemma roundD_neg_numeral:
  "numeral n < (2::int) ^ 53 \<Longrightarrow> roundD (- numeral n) = Fin (- numeral n)"
  using roundD_int [of "- numeral n"] by simp

lemma roundD_0: "roundD 0 = Fin 0"
  by (simp add: roundD_def)

lemma roundD_not_NaN: "roundD x \<noteq> NaN"
  by (simp add: roundD_def Let_def)

lemmas roundD_eval = roundD_def roundMag_def binExp_def pow2_def roundHalfEven_def Let_def
  bitLength.simps

lemmas jsnum_eval = jadd_def jsub_def jmul_def jdiv_def isInf_def isZero_def withSign_def

subsection \<open>The tokenizer\<close>

lemma set_trim: "set (trim s) \<subseteq> set s"
proof -
  have "set (trim s) \<subseteq> set (dropWhile isWhiteSpace s)"
    unfolding trim_def by (auto dest: set_dropWhileD)
  also have "\<dots> \<subseteq> set s"
    by (auto dest: set_dropWhileD)
  finally show ?thesis .
qed

lemma scanLine_length: "Suc (length result) \<le> length (scanLine cur q result cs)"
proof (induction cs arbitrary: cur q result)
  case Nil
  show ?case by simp
next
  case (Cons c cs)
  have "Suc (length (result @ [trim cur])) \<le> length (scanLine [] q' (result @ [trim cur]) cs)" for q'
    by (rule Cons.IH)
  then have "Suc (length result) \<le> length (scanLine [] q' (result @ [trim cur]) cs)" for q'
    using Suc_leD by fastforce
  then show ?case using Cons.IH by simp
qed

lemma scanLine_no_quote:
  "CHR 0x22 \<notin> set cur \<Longrightarrow> (\<forall>f \<in> set result. CHR 0x22 \<notin> set f)
   \<Longrightarrow> \<forall>f \<in> set (scanLine cur q result cs). CHR 0x22 \<notin> set f"
proof (induction cs arbitrary: cur q result)
  case Nil
  have "CHR 0x22 \<notin> set (trim cur)"
    using Nil(1) set_trim [of cur] by blast
  then show ?case using Nil(2) by simp
next
  case (Cons c cs)
  have t: "CHR 0x22 \<notin> set (trim cur)"
    using Cons.prems(1) set_trim [of cur] by blast
  have a: "\<forall>f \<in> set (scanLine cur q' result cs). CHR 0x22 \<notin> set f" for q'
    using Cons.prems by (rule Cons.IH)
  have b: "\<forall>f \<in> set (scanLine [] q' (result @ [trim cur]) cs). CHR 0x22 \<notin> set f" for q'
    using t Cons.prems(2) by (intro Cons.IH) simp_all
  have c: "c \<noteq> CHR 0x22 \<Longrightarrow> \<forall>f \<in> set (scanLine (cur @ [c]) q' result cs). CHR 0x22 \<notin> set f" for q'
    using Cons.prems by (intro Cons.IH) simp_all
  show ?case
    using a b c by simp
qed

text \<open>
  C10. \<^verbatim>\<open>parseCSVLine\<close> is a total function; for every line it returns at least one
  field, and no returned field contains a double quote: a quote only toggles the
  inside-quotes state, so a doubled quote does not produce a quote character.
\<close>

theorem parseCSVLine_total_no_quote:
  "1 \<le> length (parseCSVLine line) \<and> (\<forall>f \<in> set (parseCSVLine line). CHR 0x22 \<notin> set f)"
proof
  show "1 \<le> length (parseCSVLine line)"
    unfolding parseCSVLine_def using scanLine_length [of "[]" "[]" False line] by simp
  show "\<forall>f \<in> set (parseCSVLine line). CHR 0x22 \<notin> set f"
    unfolding parseCSVLine_def by (rule scanLine_no_quote) simp_all
qed

theorem parseCSVLine_total_no_quote_witness:
  "1 \<le> length (parseCSVLine ''a,\"b\"\"c\"'') \<and>
   parseCSVLine ''a,\"b\"\"c\"'' = [''a'', ''bc''] \<and>
   CHR 0x22 \<notin> set (parseCSVLine ''a,\"b\"\"c\"'' ! 0) \<and>
   CHR 0x22 \<notin> set (parseCSVLine ''a,\"b\"\"c\"'' ! 1)"
proof -
  have a: "parseCSVLine ''a,\"b\"\"c\"'' = [''a'', ''bc'']"
    by code_simp
  show ?thesis
    using parseCSVLine_total_no_quote [of "''a,\"b\"\"c\"''"] a by simp
qed

subsection \<open>Equity of an asset\<close>

lemma find_filter_None: "find P (filter (\<lambda>x. \<not> P x) xs) = None"
  by (induction xs) simp_all

text \<open>
  C2. \<^verbatim>\<open>calculateAssetEquity\<close> of an asset is its \<^verbatim>\<open>currentValue\<close> when
  \<^verbatim>\<open>associatedDebtId\<close> is absent (\<^verbatim>\<open>null\<close>, or the empty string, which the test
  of the code treats alike) or when no liability of the store has that id, also after the
  linked liability has been deleted; when a liability with that id exists, it is the
  \<^verbatim>\<open>currentValue\<close> minus the \<^verbatim>\<open>currentBalance\<close> of the liability that
  \<^verbatim>\<open>find\<close> returns. The result may be negative, as the last line of the witness shows.
\<close>

theorem calculateAssetEquity_cases:
  "(\<not> truthy (associatedDebtId a) \<longrightarrow> calculateAssetEquity st a = currentValue a) \<and>
   ((\<forall>l \<in> set (liabilities st). Some (liability_id l) \<noteq> associatedDebtId a) \<longrightarrow>
      calculateAssetEquity st a = currentValue a) \<and>
   (truthy (associatedDebtId a) \<and>
    (\<exists>l \<in> set (liabilities st). Some (liability_id l) = associatedDebtId a) \<longrightarrow>
      (\<exists>debt. find (\<lambda>l. Some (liability_id l) = associatedDebtId a) (liabilities st) = Some debt \<and>
              debt \<in> set (liabilities st) \<and> Some (liability_id debt) = associatedDebtId a \<and>
              calculateAssetEquity st a = jsub (currentValue a) (currentBalance debt))) \<and>
   (associatedDebtId a = Some d \<longrightarrow>
      calculateAssetEquity (deleteLiability True d st) a = currentValue a)"
proof -
  let ?P = "\<lambda>l. Some (liability_id l) = associatedDebtId a"
  have c1: "\<not> truthy (associatedDebtId a) \<longrightarrow> calculateAssetEquity st a = currentValue a"
    by (simp add: calculateAssetEquity_def)
  have c2: "(\<forall>l \<in> set (liabilities st). \<not> ?P l) \<longrightarrow> calculateAssetEquity st a = currentValue a"
  proof
    assume "\<forall>l \<in> set (liabilities st). \<not> ?P l"
    then have "find ?P (liabilities st) = None"
      by (simp add: find_None_iff)
    then show "calculateAssetEquity st a = currentValue a"
      by (simp add: calculateAssetEquity_def)
  qed
  have c3: "truthy (associatedDebtId a) \<and> (\<exists>l \<in> set (liabilities st). ?P l) \<longrightarrow>
      (\<exists>debt. find ?P (liabilities st) = Some debt \<and> debt \<in> set (liabilities st) \<and> ?P debt \<and>
              calculateAssetEquity st a = jsub (currentValue a) (currentBalance debt))"
  proof
    assume h: "truthy (associatedDebtId a) \<and> (\<exists>l \<in> set (liabilities st). ?P l)"
    then have "find ?P (liabilities st) \<noteq> None"
      by (auto simp: find_None_iff)
    then obtain debt where f: "find ?P (liabilities st) = Some debt"
      by blast
    then have m: "debt \<in> set (liabilities st) \<and> ?P debt"
      by (auto simp: find_Some_iff)
    have "calculateAssetEquity st a = jsub (currentValue a) (currentBalance debt)"
      using h f by (simp add: calculateAssetEquity_def)
    then show "\<exists>debt. find ?P (liabilities st) = Some debt \<and> debt \<in> set (liabilities st) \<and> ?P debt \<and>
              calculateAssetEquity st a = jsub (currentValue a) (currentBalance debt)"
      using f m by blast
  qed
  have c4: "associatedDebtId a = Some d \<longrightarrow>
      calculateAssetEquity (deleteLiability True d st) a = currentValue a"
  proof
    assume d: "associatedDebtId a = Some d"
    have "find (\<lambda>l. liability_id l = d) (filter (\<lambda>l. \<not> liability_id l = d) (liabilities st)) = None"
      by (rule find_filter_None)
    then show "calculateAssetEquity (deleteLiability True d st) a = currentValue a"
      using d by (simp add: calculateAssetEquity_def deleteLiability_def)
  qed
  show ?thesis using c1 c2 c3 c4 by blast
qed

theorem calculateAssetEquity_cases_witness:
  "calculateAssetEquity scenarioStore homeAsset = Fin 110000 \<and>
   calculateAssetEquity scenarioStore (homeAsset\<lparr>associatedDebtId := None\<rparr>) = Fin 350000 \<and>
   calculateAssetEquity scenarioStore (homeAsset\<lparr>associatedDebtId := Some ''gone''\<rparr>) = Fin 350000 \<and>
   calculateAssetEquity (deleteLiability True ''l1'' scenarioStore) homeAsset = Fin 350000 \<and>
   calculateAssetEquity scenarioStore (homeAsset\<lparr>currentValue := Fin 200000\<rparr>) = Fin (- 40000)"
proof -
  have t: "truthy (associatedDebtId homeAsset) \<and>
           (\<exists>l \<in> set (liabilities scenarioStore). Some (liability_id l) = associatedDebtId homeAsset)"
    by (simp add: truthy_def homeAsset_def scenarioStore_def emptyStore_def homeMortgage_def)
  have a: "calculateAssetEquity scenarioStore homeAsset = Fin 110000"
    using calculateAssetEquity_cases [of homeAsset scenarioStore "''l1''"] t
    by (simp add: homeAsset_def scenarioStore_def emptyStore_def homeMortgage_def jsnum_eval
        roundD_numeral roundD_neg_numeral)
  have b: "calculateAssetEquity scenarioStore (homeAsset\<lparr>associatedDebtId := None\<rparr>) = Fin 350000"
    using calculateAssetEquity_cases [of "homeAsset\<lparr>associatedDebtId := None\<rparr>" scenarioStore "''l1''"]
    by (simp add: truthy_def homeAsset_def)
  have c: "calculateAssetEquity scenarioStore (homeAsset\<lparr>associatedDebtId := Some ''gone''\<rparr>) = Fin 350000"
    using calculateAssetEquity_cases [of "homeAsset\<lparr>associatedDebtId := Some ''gone''\<rparr>" scenarioStore "''l1''"]
    by (simp add: homeAsset_def scenarioStore_def emptyStore_def homeMortgage_def)
  have d: "calculateAssetEquity (deleteLiability True ''l1'' scenarioStore) homeAsset = Fin 350000"
    using calculateAssetEquity_cases [of homeAsset scenarioStore "''l1''"]
    by (simp add: homeAsset_def)
  have t': "truthy (associatedDebtId (homeAsset\<lparr>currentValue := Fin 200000\<rparr>)) \<and>
           (\<exists>l \<in> set (liabilities scenarioStore).
              Some (liability_id l) = associatedDebtId (homeAsset\<lparr>currentValue := Fin 200000\<rparr>))"
    by (simp add: truthy_def homeAsset_def scenarioStore_def emptyStore_def homeMortgage_def)
  have e: "calculateAssetEquity scenarioStore (homeAsset\<lparr>currentValue := Fin 200000\<rparr>) = Fin (- 40000)"
    using calculateAssetEquity_cases [of "homeAsset\<lparr>currentValue := Fin 200000\<rparr>" scenarioStore "''l1''"] t'
    by (simp add: homeAsset_def scenarioStore_def emptyStore_def homeMortgage_def jsnum_eval
        roundD_numeral roundD_neg_numeral)
  show ?thesis using a b c d e by simp
qed

subsection \<open>Totals and net worth\<close>

lemma foldl_snoc_total: "foldl f z (xs @ [x]) = f (foldl f z xs) x"
  by simp

lemma foldl_exactSums:
  "exactSums acc ks \<Longrightarrow>
   foldl (\<lambda>total v. jadd total (parseFloatNum v)) (Fin (of_int acc)) (map (\<lambda>k. Fin (of_int k)) ks) =
     Fin (of_int (acc + sum_list ks))"
proof (induction ks arbitrary: acc)
  case Nil
  then show ?case by simp
next
  case (Cons k ks)
  have b: "\<bar>acc + k\<bar> < 2 ^ 53" and r: "exactSums (acc + k) ks"
    using Cons.prems by simp_all
  have "jadd (Fin (of_int acc)) (parseFloatNum (Fin (of_int k))) = roundD (of_int (acc + k))"
    by (simp add: jadd_def parseFloatNum_def isInf_def)
  then have s: "jadd (Fin (of_int acc)) (parseFloatNum (Fin (of_int k))) = Fin (of_int (acc + k))"
    using roundD_int [OF b] by simp
  show ?case
    using Cons.IH [OF r] s by (simp add: add.assoc)
qed

lemma total_exactSums:
  assumes "map f xs = map (\<lambda>k. Fin (of_int k)) ks" "exactSums 0 ks"
  shows "foldl (\<lambda>total a. jadd total (parseFloatNum (f a))) (Fin 0) xs = Fin (of_int (sum_list ks))"
proof -
  have "foldl (\<lambda>total a. jadd total (parseFloatNum (f a))) (Fin 0) xs =
        foldl (\<lambda>total v. jadd total (parseFloatNum v)) (Fin 0) (map f xs)"
    by (simp add: foldl_map)
  also have "\<dots> = Fin (of_int (0 + sum_list ks))"
    using foldl_exactSums [OF assms(2)] assms(1) by simp
  finally show ?thesis by simp
qed

text \<open>
  C3. For every store, \<^verbatim>\<open>calculateNetWorth\<close> is the double subtraction of
  \<^verbatim>\<open>calculateTotalLiabilities\<close> from \<^verbatim>\<open>calculateTotalAssets\<close>. Each total is 0 for an
  empty collection and, for a collection with one more record at its end, the double addition
  of that record's value to the total of the records before it: a running sum in store order
  that rounds at every step. When the values are integers below \<open>2^53\<close> in magnitude and every
  partial sum stays below \<open>2^53\<close> in magnitude, no step rounds and the total is the sum of the
  values.
\<close>

theorem netWorth_totals:
  "calculateNetWorth st = jsub (calculateTotalAssets st) (calculateTotalLiabilities st) \<and>
   calculateTotalAssets (st\<lparr>assets := []\<rparr>) = Fin 0 \<and>
   calculateTotalLiabilities (st\<lparr>liabilities := []\<rparr>) = Fin 0 \<and>
   calculateTotalAssets (st\<lparr>assets := assets st @ [a]\<rparr>) =
     jadd (calculateTotalAssets st) (parseFloatNum (currentValue a)) \<and>
   calculateTotalLiabilities (st\<lparr>liabilities := liabilities st @ [l]\<rparr>) =
     jadd (calculateTotalLiabilities st) (parseFloatNum (currentBalance l)) \<and>
   (map currentValue (assets st) = map (\<lambda>k. Fin (of_int k)) ks \<and> exactSums 0 ks \<longrightarrow>
      calculateTotalAssets st = Fin (of_int (sum_list ks))) \<and>
   (map currentBalance (liabilities st) = map (\<lambda>k. Fin (of_int k)) js \<and> exactSums 0 js \<longrightarrow>
      calculateTotalLiabilities st = Fin (of_int (sum_list js)))"
proof -
  have n: "calculateNetWorth st = jsub (calculateTotalAssets st) (calculateTotalLiabilities st)"
    by (simp add: calculateNetWorth_def)
  have ea: "calculateTotalAssets (st\<lparr>assets := []\<rparr>) = Fin 0"
    by (simp add: calculateTotalAssets_def)
  have el: "calculateTotalLiabilities (st\<lparr>liabilities := []\<rparr>) = Fin 0"
    by (simp add: calculateTotalLiabilities_def)
  have sa: "calculateTotalAssets (st\<lparr>assets := assets st @ [a]\<rparr>) =
      jadd (calculateTotalAssets st) (parseFloatNum (currentValue a))"
    by (simp add: calculateTotalAssets_def)
  have sl: "calculateTotalLiabilities (st\<lparr>liabilities := liabilities st @ [l]\<rparr>) =
      jadd (calculateTotalLiabilities st) (parseFloatNum (currentBalance l))"
    by (simp add: calculateTotalLiabilities_def)
  have xa: "map currentValue (assets st) = map (\<lambda>k. Fin (of_int k)) ks \<and> exactSums 0 ks \<longrightarrow>
      calculateTotalAssets st = Fin (of_int (sum_list ks))"
    unfolding calculateTotalAssets_def using total_exactSums [of currentValue "assets st" ks]
    by blast
  have xl: "map currentBalance (liabilities st) = map (\<lambda>k. Fin (of_int k)) js \<and> exactSums 0 js \<longrightarrow>
      calculateTotalLiabilities st = Fin (of_int (sum_list js))"
    unfolding calculateTotalLiabilities_def
    using total_exactSums [of currentBalance "liabilities st" js] by blast
  show ?thesis
    using n ea el sa sl xa xl by blast
qed

theorem netWorth_totals_witness:
  "calculateTotalAssets scenarioStore = Fin 350000 \<and>
   calculateTotalLiabilities scenarioStore = Fin 240000 \<and>
   calculateNetWorth scenarioStore = Fin 110000 \<and>
   calculateTotalAssets garageStore = Fin 368000 \<and>
   calculateTotalAssets (scenarioStore\<lparr>assets := []\<rparr>) = Fin 0 \<and>
   calculateTotalLiabilities (scenarioStore\<lparr>liabilities := []\<rparr>) = Fin 0"
proof -
  have va: "map currentValue (assets scenarioStore) = map (\<lambda>k. Fin (of_int k)) [350000] \<and>
      exactSums 0 [350000]"
    by (simp add: scenarioStore_def emptyStore_def homeAsset_def)
  have vl: "map currentBalance (liabilities scenarioStore) = map (\<lambda>k. Fin (of_int k)) [240000] \<and>
      exactSums 0 [240000]"
    by (simp add: scenarioStore_def emptyStore_def homeMortgage_def)
  have a: "calculateTotalAssets scenarioStore = Fin 350000"
    using netWorth_totals [of scenarioStore _ _ "[350000]" "[240000]"] va by simp
  have l: "calculateTotalLiabilities scenarioStore = Fin 240000"
    using netWorth_totals [of scenarioStore _ _ "[350000]" "[240000]"] vl by simp
  have "jsub (Fin 350000) (Fin 240000) = Fin 110000"
    by (simp add: jsnum_eval roundD_numeral)
  then have n: "calculateNetWorth scenarioStore = Fin 110000"
    using netWorth_totals [of scenarioStore] a l by simp
  have g: "garageStore = scenarioStore\<lparr>assets := assets scenarioStore @ [carAsset]\<rparr>"
    by (simp add: garageStore_def scenarioStore_def emptyStore_def)
  have "jadd (Fin 350000) (parseFloatNum (Fin 18000)) = Fin 368000"
    by (simp add: jsnum_eval parseFloatNum_def roundD_numeral)
  then have s: "calculateTotalAssets garageStore = Fin 368000"
    using netWorth_totals [of scenarioStore carAsset] a g by (simp add: carAsset_def)
  have ea: "calculateTotalAssets (scenarioStore\<lparr>assets := []\<rparr>) = Fin 0"
    using netWorth_totals [of scenarioStore] by blast
  have el: "calculateTotalLiabilities (scenarioStore\<lparr>liabilities := []\<rparr>) = Fin 0"
    using netWorth_totals [of scenarioStore] by blast
  show ?thesis using a l n s ea el by simp
qed

text \<open>
  C3 as worded by the specification fails: with assets worth \<open>10^16\<close>, 1 and 1, all of them
  doubles, as is their sum \<open>10^16 + 2\<close>, the total that the code returns is \<open>10^16\<close>, because
  each addition of 1 rounds to \<open>10^16\<close> again.
\<close>

theorem netWorth_totals_counterexample:
  "calculateTotalAssets driftStore = Fin 10000000000000000 \<and>
   (\<Sum>a\<leftarrow>assets driftStore. finVal (currentValue a)) = 10000000000000002 \<and>
   roundD 10000000000000002 = Fin 10000000000000002"
proof -
  have a: "jadd (Fin 0) (Fin 10000000000000000) = Fin 10000000000000000"
    by (simp add: jsnum_eval roundD_eval)
  have b: "jadd (Fin 10000000000000000) (Fin 1) = Fin 10000000000000000"
    by (simp add: jsnum_eval roundD_eval)
  have t: "calculateTotalAssets driftStore = Fin 10000000000000000"
    by (simp add: calculateTotalAssets_def driftStore_def emptyStore_def homeAsset_def
        carAsset_def parseFloatNum_def a b)
  have s: "(\<Sum>a\<leftarrow>assets driftStore. finVal (currentValue a)) = 10000000000000002"
    by (simp add: driftStore_def emptyStore_def homeAsset_def carAsset_def)
  have r: "roundD 10000000000000002 = Fin 10000000000000002"
    by (simp add: roundD_eval)
  show ?thesis using t s r by simp
qed

subsection \<open>Evaluating \<^verbatim>\<open>parseFloat\<close>\<close>

lemmas parseFloat_eval = parseFloat_def parseUnsigned_def isWhiteSpace_def isDigit_def
  digitsVal_def exponentPart_def scale10_def Let_def

subsection \<open>Form submission\<close>

lemma find_first:
  "k < length xs \<Longrightarrow> P (xs ! k) \<Longrightarrow> (\<forall>j<k. \<not> P (xs ! j)) \<Longrightarrow> find P xs = Some (xs ! k)"
proof (induction xs arbitrary: k)
  case Nil
  then show ?case by simp
next
  case (Cons x xs)
  show ?case
  proof (cases k)
    case 0
    then show ?thesis using Cons.prems by simp
  next
    case (Suc m)
    have nx: "\<not> P x" using Cons.prems(3) Suc by force
    have "find P xs = Some (xs ! m)"
    proof (rule Cons.IH)
      show "m < length xs" using Cons.prems(1) Suc by simp
      show "P (xs ! m)" using Cons.prems(2) Suc by simp
      show "\<forall>j<m. \<not> P (xs ! j)" using Cons.prems(3) Suc by force
    qed
    then show ?thesis using nx Suc by simp
  qed
qed

lemma findIndex_first:
  "k < length xs \<Longrightarrow> P (xs ! k) \<Longrightarrow> (\<forall>j<k. \<not> P (xs ! j)) \<Longrightarrow> findIndex P xs = int k"
proof (induction xs arbitrary: k)
  case Nil
  then show ?case by simp
next
  case (Cons x xs)
  show ?case
  proof (cases k)
    case 0
    then show ?thesis using Cons.prems by simp
  next
    case (Suc m)
    have nx: "\<not> P x" using Cons.prems(3) Suc by force
    have "findIndex P xs = int m"
    proof (rule Cons.IH)
      show "m < length xs" using Cons.prems(1) Suc by simp
      show "P (xs ! m)" using Cons.prems(2) Suc by simp
      show "\<forall>j<m. \<not> P (xs ! j)" using Cons.prems(3) Suc by force
    qed
    then show ?thesis using nx Suc by (simp add: Let_def)
  qed
qed

lemma assignIndex_nat: "k < length xs \<Longrightarrow> assignIndex xs (int k) v = xs[k := v]"
  by (simp add: assignIndex_def)

lemma orElse_Some: "i \<noteq> [] \<Longrightarrow> orElse (Some i) g = i"
  by (simp add: orElse_def)

lemma orElse_falsy: "\<not> truthy v \<Longrightarrow> orElse v g = g"
  by (simp add: orElse_def truthy_def split: option.splits)

lemma find_Some_member: "find P xs = Some x \<Longrightarrow> x \<in> set xs \<and> P x"
  by (induction xs) (auto split: if_splits)

lemma find_None_member: "find P xs = None \<Longrightarrow> x \<in> set xs \<Longrightarrow> \<not> P x"
  by (induction xs) (auto split: if_splits)

lemma afterWrite_cases:
  "afterWrite st =
     (if groupingRaises (map asset_category (assets st)) \<or>
         groupingRaises (map liability_category (liabilities st))
      then Threw TypeError st else Completed (closeAllModals st))"
  by (simp add: afterWrite_def updateAllDisplays_def)

lemma afterWrite_assets: "assets (stateOf (afterWrite st)) = assets st"
  by (simp add: afterWrite_cases closeAllModals_def)

lemma afterWrite_liabilities: "liabilities (stateOf (afterWrite st)) = liabilities st"
  by (simp add: afterWrite_cases closeAllModals_def)

lemma afterWrite_snapshots: "snapshots (stateOf (afterWrite st)) = snapshots st"
  by (simp add: afterWrite_cases closeAllModals_def)

lemma afterWrite_completed:
  "completed (afterWrite st) =
     (\<not> groupingRaises (map asset_category (assets st)) \<and>
      \<not> groupingRaises (map liability_category (liabilities st)))"
  by (simp add: afterWrite_cases)

lemma afterWrite_error: "afterWrite st = Threw e s \<Longrightarrow> e = TypeError"
  by (simp add: afterWrite_cases split: if_splits)

lemma handleAssetSubmit_edit:
  assumes "editingAssetId st = Some i" "i \<noteq> []" "k < length (assets st)"
    "asset_id (assets st ! k) = i" "\<forall>j<k. asset_id (assets st ! j) \<noteq> i"
  shows "handleAssetSubmit fr f st =
     afterWrite
       (st\<lparr>assets := (assets st)[k := assetData i f (asset_createdAt (assets st ! k)) (updatedStamp fr)]\<rparr>)"
proof -
  let ?P = "\<lambda>a. Some (asset_id a) = editingAssetId st"
  have p: "?P (assets st ! k)" using assms by simp
  have n: "\<forall>j<k. \<not> ?P (assets st ! j)" using assms by simp
  have f: "find ?P (assets st) = Some (assets st ! k)"
    using assms(3) p n by (rule find_first)
  have x: "findIndex ?P (assets st) = int k"
    using assms(3) p n by (rule findIndex_first)
  have t: "truthy (editingAssetId st)" using assms by (simp add: truthy_def)
  show ?thesis
    unfolding handleAssetSubmit_def
    using f x t assms(1,2,3) by (simp add: Let_def assignIndex_nat orElse_Some)
qed

lemma handleAssetSubmit_add:
  assumes "\<not> truthy (editingAssetId st)"
  shows "handleAssetSubmit fr f st =
     afterWrite
       (st\<lparr>assets := assets st @ [assetData (generatedId fr) f (createdStamp fr) (updatedStamp fr)]\<rparr>)"
  unfolding handleAssetSubmit_def using assms by (simp add: Let_def orElse_falsy)



lemma handleAssetSubmit_missing:
  assumes "truthy (editingAssetId st)"
    and "find (\<lambda>a. Some (asset_id a) = editingAssetId st) (assets st) = None"
  shows "handleAssetSubmit fr f st = Threw TypeError st"
  unfolding handleAssetSubmit_def using assms by simp

lemma handleAssetSubmit_found:
  assumes "truthy (editingAssetId st)"
    and "find (\<lambda>a. Some (asset_id a) = editingAssetId st) (assets st) = Some old"
  shows "\<exists>new. handleAssetSubmit fr f st = afterWrite (st\<lparr>assets := new\<rparr>)"
  unfolding handleAssetSubmit_def using assms by (simp add: Let_def) blast



text \<open>
  C7, as amended. \<^verbatim>\<open>handleAssetSubmit\<close> checks no field of the form. When nothing is
  being edited it appends the record built from the form whatever the form holds: an empty
  name is stored as it is and a price that does not parse is stored as \<^verbatim>\<open>NaN\<close>. The
  only error it raises is \<^verbatim>\<open>TypeError\<close>, in two situations: before anything is written,
  with the store unchanged, when an editing id is set that no asset has; and after the record
  has been written, when redrawing meets a category that is an inherited property name. It
  returns exactly when neither is the case.
\<close>

theorem handleAssetSubmit_checks_no_field:
  "(\<not> truthy (editingAssetId st) \<longrightarrow>
      assets (stateOf (handleAssetSubmit fr f st)) =
        assets st @
          [\<lparr>asset_id = generatedId fr, asset_name = form_asset_name f,
            asset_category = form_asset_category f,
            purchaseDate = form_asset_purchase_date f,
            purchasePrice = parseFloat (form_asset_purchase_price f),
            currentValue = parseFloat (form_asset_current_value f),
            associatedDebtId = orNull (form_asset_associated_debt f),
            asset_notes = form_asset_notes f,
            asset_createdAt = createdStamp fr,
            asset_updatedAt = updatedStamp fr\<rparr>]) \<and>
   (truthy (editingAssetId st) \<and>
    \<not> (\<exists>a \<in> set (assets st). Some (asset_id a) = editingAssetId st) \<longrightarrow>
      handleAssetSubmit fr f st = Threw TypeError st) \<and>
   completed (handleAssetSubmit fr f st) =
     ((\<not> truthy (editingAssetId st) \<or>
       (\<exists>a \<in> set (assets st). Some (asset_id a) = editingAssetId st)) \<and>
      \<not> groupingRaises (map asset_category (assets (stateOf (handleAssetSubmit fr f st)))) \<and>
      \<not> groupingRaises (map liability_category (liabilities st))) \<and>
   (\<forall>e s. handleAssetSubmit fr f st = Threw e s \<longrightarrow> e = TypeError)"
proof (cases "truthy (editingAssetId st)")
  case False
  have r: "handleAssetSubmit fr f st =
     afterWrite
       (st\<lparr>assets := assets st @ [assetData (generatedId fr) f (createdStamp fr) (updatedStamp fr)]\<rparr>)"
    using False by (rule handleAssetSubmit_add)
  have e: "\<forall>e s. handleAssetSubmit fr f st = Threw e s \<longrightarrow> e = TypeError"
    unfolding r using afterWrite_error by blast
  show ?thesis
    using False e unfolding r afterWrite_assets afterWrite_completed
    by (simp add: assetData_def)
next
  case True
  show ?thesis
  proof (cases "find (\<lambda>a. Some (asset_id a) = editingAssetId st) (assets st)")
    case None
    have t: "handleAssetSubmit fr f st = Threw TypeError st"
      using True None by (rule handleAssetSubmit_missing)
    have "\<not> (\<exists>a \<in> set (assets st). Some (asset_id a) = editingAssetId st)"
      using find_None_member [OF None] by blast
    then show ?thesis using True t by simp
  next
    case (Some old)
    obtain new where r: "handleAssetSubmit fr f st = afterWrite (st\<lparr>assets := new\<rparr>)"
      using handleAssetSubmit_found [OF True Some] by blast
    have m: "\<exists>a \<in> set (assets st). Some (asset_id a) = editingAssetId st"
      using find_Some_member [OF Some] by blast
    have e: "\<forall>e s. handleAssetSubmit fr f st = Threw e s \<longrightarrow> e = TypeError"
      unfolding r using afterWrite_error by blast
    show ?thesis
      using True m e unfolding r afterWrite_assets afterWrite_completed by simp
  qed
qed

theorem handleAssetSubmit_checks_no_field_witness:
  "completed (handleAssetSubmit sampleFresh blankAssetForm emptyStore) \<and>
   map asset_name (assets (stateOf (handleAssetSubmit sampleFresh blankAssetForm emptyStore))) = [[]] \<and>
   map currentValue (assets (stateOf (handleAssetSubmit sampleFresh blankAssetForm emptyStore))) = [NaN] \<and>
   handleAssetSubmit sampleFresh reappraisal (openAssetModal (Some ''gone'') garageStore) =
     Threw TypeError (openAssetModal (Some ''gone'') garageStore) \<and>
   \<not> completed (handleAssetSubmit sampleFresh constructorForm garageStore) \<and>
   map asset_category (assets (stateOf (handleAssetSubmit sampleFresh constructorForm garageStore))) =
     [''Real Estate'', ''Vehicle'', ''constructor'']"
proof -
  let ?g = "openAssetModal (Some ''gone'') garageStore"
  let ?b = "handleAssetSubmit sampleFresh blankAssetForm emptyStore"
  let ?k = "handleAssetSubmit sampleFresh constructorForm garageStore"
  have pf: "parseFloat ''abc'' = NaN" "parseFloat [] = NaN"
    by (simp_all add: parseFloat_eval)
  have n: "\<not> truthy (editingAssetId emptyStore)" "\<not> truthy (editingAssetId garageStore)"
    by (simp_all add: truthy_def emptyStore_def garageStore_def)
  have g: "truthy (editingAssetId ?g) \<and>
      \<not> (\<exists>a \<in> set (assets ?g). Some (asset_id a) = editingAssetId ?g)"
    by (simp add: truthy_def openAssetModal_def garageStore_def emptyStore_def homeAsset_def carAsset_def)
  have b: "assets (stateOf ?b) =
      assets emptyStore @
          [\<lparr>asset_id = generatedId sampleFresh, asset_name = form_asset_name blankAssetForm,
            asset_category = form_asset_category blankAssetForm,
            purchaseDate = form_asset_purchase_date blankAssetForm,
            purchasePrice = parseFloat (form_asset_purchase_price blankAssetForm),
            currentValue = parseFloat (form_asset_current_value blankAssetForm),
            associatedDebtId = orNull (form_asset_associated_debt blankAssetForm),
            asset_notes = form_asset_notes blankAssetForm,
            asset_createdAt = createdStamp sampleFresh,
            asset_updatedAt = updatedStamp sampleFresh\<rparr>]"
    using handleAssetSubmit_checks_no_field [of emptyStore sampleFresh blankAssetForm] n by blast
  have k: "assets (stateOf ?k) =
      assets garageStore @
          [\<lparr>asset_id = generatedId sampleFresh, asset_name = form_asset_name constructorForm,
            asset_category = form_asset_category constructorForm,
            purchaseDate = form_asset_purchase_date constructorForm,
            purchasePrice = parseFloat (form_asset_purchase_price constructorForm),
            currentValue = parseFloat (form_asset_current_value constructorForm),
            associatedDebtId = orNull (form_asset_associated_debt constructorForm),
            asset_notes = form_asset_notes constructorForm,
            asset_createdAt = createdStamp sampleFresh,
            asset_updatedAt = updatedStamp sampleFresh\<rparr>]"
    using handleAssetSubmit_checks_no_field [of garageStore sampleFresh constructorForm] n by blast
  have cb: "completed ?b =
     ((\<not> truthy (editingAssetId emptyStore) \<or>
       (\<exists>a \<in> set (assets emptyStore). Some (asset_id a) = editingAssetId emptyStore)) \<and>
      \<not> groupingRaises (map asset_category (assets (stateOf ?b))) \<and>
      \<not> groupingRaises (map liability_category (liabilities emptyStore)))"
    using handleAssetSubmit_checks_no_field [of emptyStore sampleFresh blankAssetForm] by blast
  have ck: "completed ?k =
     ((\<not> truthy (editingAssetId garageStore) \<or>
       (\<exists>a \<in> set (assets garageStore). Some (asset_id a) = editingAssetId garageStore)) \<and>
      \<not> groupingRaises (map asset_category (assets (stateOf ?k))) \<and>
      \<not> groupingRaises (map liability_category (liabilities garageStore)))"
    using handleAssetSubmit_checks_no_field [of garageStore sampleFresh constructorForm] by blast
  have c: "handleAssetSubmit sampleFresh reappraisal ?g = Threw TypeError ?g"
    using handleAssetSubmit_checks_no_field [of ?g sampleFresh reappraisal] g by blast
  have a1: "completed ?b"
    unfolding cb b
    by (simp add: truthy_def emptyStore_def blankAssetForm_def groupingRaises_def
        objectPrototypeKeys_def)
  have a2: "\<not> completed ?k"
    unfolding ck k
    by (simp add: garageStore_def emptyStore_def constructorForm_def reappraisal_def
        groupingRaises_def objectPrototypeKeys_def truthy_def)
  have a3: "map asset_name (assets (stateOf ?b)) = [[]] \<and> map currentValue (assets (stateOf ?b)) = [NaN]"
    unfolding b by (simp add: pf emptyStore_def blankAssetForm_def)
  have a4: "map asset_category (assets (stateOf ?k)) = [''Real Estate'', ''Vehicle'', ''constructor'']"
    unfolding k
    by (simp add: garageStore_def emptyStore_def constructorForm_def reappraisal_def homeAsset_def
        carAsset_def)
  show ?thesis
    using a1 a2 a3 a4 c by blast
qed

text \<open>
  The claim as stated fails: a form with an empty name and category and a value that is not
  a number is stored, and the handler completes.
\<close>

theorem handleAssetSubmit_blank_form_counterexample:
  "handleAssetSubmit sampleFresh blankAssetForm emptyStore =
     Completed (emptyStore\<lparr>assets :=
       [\<lparr>asset_id = ''k3x9'', asset_name = [], asset_category = [], purchaseDate = [],
         purchasePrice = NaN, currentValue = NaN, associatedDebtId = None, asset_notes = [],
         asset_createdAt = ''2024-01-01T00:00:00.000Z'',
         asset_updatedAt = ''2024-01-01T00:00:00.001Z''\<rparr>]\<rparr>)"
proof -
  have pf: "parseFloat ''abc'' = NaN" "parseFloat [] = NaN"
    by (simp_all add: parseFloat_eval)
  show ?thesis
    by (simp add: pf handleAssetSubmit_def truthy_def emptyStore_def assetData_def orElse_def
        orNull_def blankAssetForm_def sampleFresh_def closeAllModals_def Let_def
        afterWrite_cases groupingRaises_def objectPrototypeKeys_def)
qed

subsection \<open>Payoff percentage\<close>

lemma roundD_minus: "roundD x = Fin x \<Longrightarrow> x \<noteq> 0 \<Longrightarrow> roundD (- x) = Fin (- x)"
  by (auto simp: roundD_def Let_def split: if_splits)

lemma jsub_zero_double:
  assumes "isZero z" "roundD x = Fin x" "x \<noteq> 0"
  shows "jsub z (Fin x) = Fin (- x)"
proof -
  have "jsub z (Fin x) = roundD (- x)"
    using assms(1,3) by (auto simp: jsub_def jadd_def isZero_def isInf_def)
  then show ?thesis
    using roundD_minus [OF assms(2,3)] by simp
qed

lemma jsub_zero_zero: "isZero z \<Longrightarrow> isZero y \<Longrightarrow> isZero (jsub z y)"
  by (auto simp: jsub_def jadd_def isZero_def isInf_def roundD_def)

text \<open>
  C8, as amended. \<^verbatim>\<open>calculatePayoffPercentage\<close> is the double subtraction of the
  balance from the original amount, divided in doubles by the original amount and multiplied
  in doubles by 100; 1000 and 400 give 60. With an original amount of zero it neither fails
  nor returns 0: the result is \<^verbatim>\<open>NaN\<close> when the balance is a zero too; for a nonzero
  balance it is an infinity, negative when the balance is positive and the original amount
  is the positive zero or when the balance is negative and the original amount is the
  negative zero, and positive otherwise.
\<close>

theorem payoff_percentage:
  "calculatePayoffPercentage l =
     jmul (jdiv (jsub (originalAmount l) (currentBalance l)) (originalAmount l)) (Fin 100) \<and>
   (originalAmount l = Fin 1000 \<and> currentBalance l = Fin 400 \<longrightarrow>
      calculatePayoffPercentage l = Fin 60) \<and>
   (isZero (originalAmount l) \<and> isZero (currentBalance l) \<longrightarrow>
      calculatePayoffPercentage l = NaN) \<and>
   (isZero (originalAmount l) \<and> currentBalance l = Fin x \<and> x \<noteq> 0 \<and> roundD x = Fin x \<longrightarrow>
      calculatePayoffPercentage l =
        (if (0 < x) = (originalAmount l = Fin 0) then NInf else PInf))"
proof -
  have g: "calculatePayoffPercentage l =
     jmul (jdiv (jsub (originalAmount l) (currentBalance l)) (originalAmount l)) (Fin 100)"
    by (simp add: calculatePayoffPercentage_def)
  have a: "jsub (Fin 1000) (Fin 400) = Fin 600"
    by (simp add: jsnum_eval roundD_numeral)
  have b: "jdiv (Fin 600) (Fin 1000) = Fin (5404319552844595 / 9007199254740992)"
    by (simp add: jsnum_eval roundD_eval)
  have c: "jmul (Fin (5404319552844595 / 9007199254740992)) (Fin 100) = Fin 60"
    by (simp add: jsnum_eval roundD_eval)
  have s: "originalAmount l = Fin 1000 \<and> currentBalance l = Fin 400 \<longrightarrow>
      calculatePayoffPercentage l = Fin 60"
  proof
    assume h: "originalAmount l = Fin 1000 \<and> currentBalance l = Fin 400"
    have "jmul (jdiv (jsub (Fin 1000) (Fin 400)) (Fin 1000)) (Fin 100) = Fin 60"
      by (simp only: a b c)
    then show "calculatePayoffPercentage l = Fin 60"
      unfolding g using h by simp
  qed
  have z: "isZero (originalAmount l) \<and> isZero (currentBalance l) \<longrightarrow>
      calculatePayoffPercentage l = NaN"
  proof
    assume h: "isZero (originalAmount l) \<and> isZero (currentBalance l)"
    then have "isZero (jsub (originalAmount l) (currentBalance l))"
      using jsub_zero_zero by blast
    then have "jdiv (jsub (originalAmount l) (currentBalance l)) (originalAmount l) = NaN"
      using h by (auto simp: jdiv_def isZero_def isInf_def)
    then show "calculatePayoffPercentage l = NaN"
      unfolding g by (simp add: jmul_def)
  qed
  have i: "isZero (originalAmount l) \<and> currentBalance l = Fin x \<and> x \<noteq> 0 \<and> roundD x = Fin x \<longrightarrow>
      calculatePayoffPercentage l =
        (if (0 < x) = (originalAmount l = Fin 0) then NInf else PInf)"
  proof
    assume h: "isZero (originalAmount l) \<and> currentBalance l = Fin x \<and> x \<noteq> 0 \<and> roundD x = Fin x"
    then have p: "jsub (originalAmount l) (currentBalance l) = Fin (- x)"
      using jsub_zero_double [of "originalAmount l" x] by simp
    have d: "jdiv (Fin (- x)) (originalAmount l) =
        (if (0 < x) = (originalAmount l = Fin 0) then NInf else PInf)"
      using h by (auto simp: jdiv_def isZero_def isInf_def withSign_def)
    have m: "jmul NInf (Fin 100) = NInf" "jmul PInf (Fin 100) = PInf"
      by (simp_all add: jmul_def isZero_def isInf_def withSign_def)
    show "calculatePayoffPercentage l =
        (if (0 < x) = (originalAmount l = Fin 0) then NInf else PInf)"
      unfolding g p d using m by simp
  qed
  show ?thesis
    using g s z i by blast
qed

theorem payoff_percentage_witness:
  "calculatePayoffPercentage (homeMortgage\<lparr>originalAmount := Fin 1000, currentBalance := Fin 400\<rparr>) = Fin 60 \<and>
   calculatePayoffPercentage (homeMortgage\<lparr>originalAmount := Fin 0, currentBalance := NegZero\<rparr>) = NaN \<and>
   calculatePayoffPercentage (homeMortgage\<lparr>originalAmount := Fin 0\<rparr>) = NInf \<and>
   calculatePayoffPercentage (homeMortgage\<lparr>originalAmount := NegZero\<rparr>) = PInf"
proof -
  have r: "roundD 240000 = Fin 240000"
    by (simp add: roundD_numeral)
  let ?s = "homeMortgage\<lparr>originalAmount := Fin 1000, currentBalance := Fin 400\<rparr>"
  let ?z = "homeMortgage\<lparr>originalAmount := Fin 0, currentBalance := NegZero\<rparr>"
  let ?p = "homeMortgage\<lparr>originalAmount := Fin 0\<rparr>"
  let ?n = "homeMortgage\<lparr>originalAmount := NegZero\<rparr>"
  have hs: "originalAmount ?s = Fin 1000 \<and> currentBalance ?s = Fin 400"
    by simp
  have hz: "isZero (originalAmount ?z) \<and> isZero (currentBalance ?z)"
    by (simp add: isZero_def)
  have hp: "isZero (originalAmount ?p) \<and> currentBalance ?p = Fin 240000 \<and> (240000::real) \<noteq> 0 \<and>
      roundD 240000 = Fin 240000"
    using r by (simp add: isZero_def homeMortgage_def)
  have hn: "isZero (originalAmount ?n) \<and> currentBalance ?n = Fin 240000 \<and> (240000::real) \<noteq> 0 \<and>
      roundD 240000 = Fin 240000"
    using r by (simp add: isZero_def homeMortgage_def)
  have b: "calculatePayoffPercentage ?s = Fin 60"
    using payoff_percentage [of ?s] hs by blast
  have c: "calculatePayoffPercentage ?z = NaN"
    using payoff_percentage [of ?z] hz by blast
  have "calculatePayoffPercentage ?p =
      (if (0 < (240000::real)) = (originalAmount ?p = Fin 0) then NInf else PInf)"
    using payoff_percentage [of ?p 240000] hp by blast
  then have d: "calculatePayoffPercentage ?p = NInf"
    by simp
  have "calculatePayoffPercentage ?n =
      (if (0 < (240000::real)) = (originalAmount ?n = Fin 0) then NInf else PInf)"
    using payoff_percentage [of ?n 240000] hn by blast
  then have e: "calculatePayoffPercentage ?n = PInf"
    by simp
  show ?thesis using b c d e by simp
qed

text \<open>
  The claim as stated fails: for a liability with original amount 0 and balance 240000 the
  function returns \<^verbatim>\<open>-Infinity\<close>, which is not 0, and nothing is raised.
\<close>

theorem payoff_zero_original_counterexample:
  "calculatePayoffPercentage (homeMortgage\<lparr>originalAmount := Fin 0\<rparr>) \<noteq> Fin 0 \<and>
   calculatePayoffPercentage (homeMortgage\<lparr>originalAmount := Fin 0\<rparr>) = NInf"
proof -
  have "jsub (Fin 0) (Fin 240000) = Fin (- 240000)"
    by (simp add: jsnum_eval roundD_neg_numeral)
  then show ?thesis
    by (simp add: calculatePayoffPercentage_def homeMortgage_def jdiv_def jmul_def isInf_def
        isZero_def withSign_def)
qed

subsection \<open>Snapshots\<close>

text \<open>
  C9. \<^verbatim>\<open>takeSnapshot\<close> does not return: for every store, also one whose values are all
  finite, the snapshot is pushed and then the call of \<^verbatim>\<open>updateDashboard\<close>, a name that
  the source declares nowhere, raises \<^verbatim>\<open>ReferenceError\<close>.
\<close>

theorem takeSnapshot_raises:
  "takeSnapshot fr notes st =
     Threw ReferenceError
       (st\<lparr>snapshots := snapshots st @
          [\<lparr>snapshot_id = generatedId fr, snapshot_date = createdStamp fr,
            totalAssets = calculateTotalAssets st,
            totalLiabilities = calculateTotalLiabilities st,
            netWorth = calculateNetWorth st,
            snapshot_notes = (case notes of None \<Rightarrow> [] | Some n \<Rightarrow> n)\<rparr>]\<rparr>)"
proof -
  have "''updateDashboard'' \<notin> set declaredFunctions"
    by (simp add: declaredFunctions_def)
  then show ?thesis
    by (simp add: takeSnapshot_def callDisplay_def Let_def)
qed

lemma parseRow_snapshots: "snapshots (fst (parseRow fr line acc)) = snapshots (fst acc)"
  by (cases acc) (simp add: parseRow_def Let_def)

lemma parseRows_snapshots: "snapshots (fst (parseRows env i rows acc)) = snapshots (fst acc)"
  by (induction rows arbitrary: i acc) (simp_all add: parseRow_snapshots)

lemma handleAssetSubmit_snapshots: "snapshots (stateOf (handleAssetSubmit fr f st)) = snapshots st"
  by (simp add: handleAssetSubmit_def afterWrite_snapshots Let_def split: option.splits)

lemma handleLiabilitySubmit_snapshots:
  "snapshots (stateOf (handleLiabilitySubmit fr f st)) = snapshots st"
  by (simp add: handleLiabilitySubmit_def afterWrite_snapshots Let_def split: option.splits)

lemma takeSnapshot_state:
  "stateOf (takeSnapshot fr notes st) =
     st\<lparr>snapshots := snapshots st @
          [\<lparr>snapshot_id = generatedId fr, snapshot_date = createdStamp fr,
            totalAssets = calculateTotalAssets st,
            totalLiabilities = calculateTotalLiabilities st,
            netWorth = calculateNetWorth st,
            snapshot_notes = (case notes of None \<Rightarrow> [] | Some n \<Rightarrow> n)\<rparr>]\<rparr>"
  by (simp add: takeSnapshot_def callDisplay_def Let_def)

lemma step_snapshots:
  "\<not> confirmedDeleteAll a \<Longrightarrow> \<exists>ys. snapshots (step a st) = snapshots st @ ys"
proof (cases a)
  case (ImportCSV env csvText)
  then show ?thesis by (simp add: parseCSV_def parseRows_snapshots)
next
  case (DeleteAllData c1 c2)
  assume "\<not> confirmedDeleteAll a"
  then show ?thesis using DeleteAllData by (auto simp: deleteAllData_def)
qed (simp_all add: handleAssetSubmit_snapshots handleLiabilitySubmit_snapshots deleteAsset_def
      deleteLiability_def openAssetModal_def openLiabilityModal_def closeAllModals_def
      takeSnapshot_state)

lemma run_snapshots:
  "\<forall>a \<in> set acts. \<not> confirmedDeleteAll a \<Longrightarrow> \<exists>ys. snapshots (run acts st) = snapshots st @ ys"
proof (induction acts arbitrary: st)
  case Nil
  show ?case by (simp add: run_def)
next
  case (Cons a acts)
  obtain ys where y: "snapshots (step a st) = snapshots st @ ys"
    using step_snapshots [of a st] Cons.prems by auto
  obtain zs where z: "snapshots (run acts (step a st)) = snapshots (step a st) @ zs"
    using Cons.IH [of "step a st"] Cons.prems by auto
  have "run (a # acts) st = run acts (step a st)"
    by (simp add: run_def)
  then show ?case using y z by simp
qed

text \<open>
  C4. \<^verbatim>\<open>takeSnapshot\<close> computes the two totals and the net worth from the store as it
  is, builds a snapshot with the generated id and the current time stamp and appends it to
  the history, leaving assets and liabilities as they are. The stored values are frozen:
  after any sequence of actions without a confirmed delete-all (submitting or deleting
  assets and liabilities, importing, taking further snapshots) the snapshots that were
  there are still there, unchanged and in the same positions.
\<close>

theorem snapshots_frozen:
  "snapshots (stateOf (takeSnapshot fr notes st)) =
     snapshots st @
       [\<lparr>snapshot_id = generatedId fr, snapshot_date = createdStamp fr,
         totalAssets = calculateTotalAssets st,
         totalLiabilities = calculateTotalLiabilities st,
         netWorth = calculateNetWorth st,
         snapshot_notes = (case notes of None \<Rightarrow> [] | Some n \<Rightarrow> n)\<rparr>] \<and>
   assets (stateOf (takeSnapshot fr notes st)) = assets st \<and>
   liabilities (stateOf (takeSnapshot fr notes st)) = liabilities st \<and>
   ((\<forall>a \<in> set acts. \<not> confirmedDeleteAll a) \<longrightarrow>
      take (length (snapshots st)) (snapshots (run acts st)) = snapshots st)"
proof -
  have "(\<forall>a \<in> set acts. \<not> confirmedDeleteAll a) \<longrightarrow>
      take (length (snapshots st)) (snapshots (run acts st)) = snapshots st"
  proof
    assume "\<forall>a \<in> set acts. \<not> confirmedDeleteAll a"
    then obtain ys where "snapshots (run acts st) = snapshots st @ ys"
      using run_snapshots by blast
    then show "take (length (snapshots st)) (snapshots (run acts st)) = snapshots st"
      by simp
  qed
  then show ?thesis by (simp add: takeSnapshot_state)
qed

theorem snapshots_frozen_witness:
  "map netWorth (snapshots afterSnapshot) = [Fin 110000] \<and>
   take (length (snapshots afterSnapshot)) (snapshots (run laterActions afterSnapshot)) =
     snapshots afterSnapshot \<and>
   calculateNetWorth (run laterActions afterSnapshot) = Fin 365000"
proof -
  have n: "calculateNetWorth scenarioStore = Fin 110000"
    by (simp add: calculateNetWorth_def calculateTotalAssets_def calculateTotalLiabilities_def
        parseFloatNum_def scenarioStore_def emptyStore_def homeAsset_def homeMortgage_def
        jsnum_eval roundD_numeral roundD_0)
  have a: "map netWorth (snapshots afterSnapshot) = [Fin 110000]"
    unfolding afterSnapshot_def
    using snapshots_frozen [of sampleFresh None scenarioStore "[]"] n
    by (simp add: scenarioStore_def emptyStore_def)
  have h: "\<forall>a \<in> set laterActions. \<not> confirmedDeleteAll a"
    by (simp add: laterActions_def)
  have b: "take (length (snapshots afterSnapshot)) (snapshots (run laterActions afterSnapshot)) =
     snapshots afterSnapshot"
    using snapshots_frozen [of sampleFresh None afterSnapshot laterActions] h by blast
  have s: "assets afterSnapshot = [homeAsset]" "liabilities afterSnapshot = [homeMortgage]"
    unfolding afterSnapshot_def by (simp_all add: takeSnapshot_state scenarioStore_def emptyStore_def)
  let ?o = "openAssetModal (Some ''a1'') afterSnapshot"
  have o: "editingAssetId ?o = Some ''a1''" "assets ?o = [homeAsset]" "liabilities ?o = [homeMortgage]"
    by (simp_all add: openAssetModal_def s)
  have u: "handleAssetSubmit sampleFresh reappraisal ?o =
      afterWrite (?o\<lparr>assets := (assets ?o)[0 :=
        assetData ''a1'' reappraisal (asset_createdAt (assets ?o ! 0)) (updatedStamp sampleFresh)]\<rparr>)"
    by (rule handleAssetSubmit_edit) (simp_all add: o homeAsset_def)
  have r: "run laterActions afterSnapshot =
      deleteLiability True ''l1'' (stateOf (handleAssetSubmit sampleFresh reappraisal ?o))"
    by (simp add: run_def laterActions_def)
  have pf: "parseFloat ''365000'' = Fin 365000" "parseFloat ''300000'' = Fin 300000"
    by (simp_all add: parseFloat_eval roundD_numeral)
  have e: "assets (run laterActions afterSnapshot) =
             [assetData ''a1'' reappraisal ''2023-05-01T10:00:00.000Z'' (updatedStamp sampleFresh)] \<and>
           liabilities (run laterActions afterSnapshot) = []"
    unfolding r u
    by (simp add: o afterWrite_assets afterWrite_liabilities deleteLiability_def homeAsset_def
        homeMortgage_def)
  have c: "calculateNetWorth (run laterActions afterSnapshot) = Fin 365000"
    by (simp add: calculateNetWorth_def calculateTotalAssets_def calculateTotalLiabilities_def
        parseFloatNum_def e assetData_def reappraisal_def pf jsnum_eval roundD_numeral roundD_0)
  show ?thesis using a b c by simp
qed

subsection \<open>CSV import\<close>

lemma trim_Nil: "trim [] = []"
  by (simp add: trim_def)

lemma trim_nonempty: "\<not> isWhiteSpace c \<Longrightarrow> trim (c # t) \<noteq> []"
proof -
  assume c: "\<not> isWhiteSpace c"
  have "dropWhile isWhiteSpace (rev t @ [c]) \<noteq> []"
    using c by (simp add: dropWhile_append)
  then show ?thesis using c by (simp add: trim_def)
qed

lemma trim_Asset: "trim ''Asset'' = ''Asset''"
  by (simp add: trim_def isWhiteSpace_def)

lemma trim_Liability: "trim ''Liability'' = ''Liability''"
  by (simp add: trim_def isWhiteSpace_def)

lemma accepts_exclusive: "acceptsAsset line \<Longrightarrow> \<not> acceptsLiability line"
  by (auto simp: acceptsAsset_def acceptsLiability_def Let_def)

lemma parseRow_eq:
  "parseRow fr line (st, na, nl) =
     (st\<lparr>assets := assets st @ (if acceptsAsset line then [importedAsset fr (parseCSVLine line)] else []),
         liabilities := liabilities st @
           (if acceptsLiability line then [importedLiability fr (parseCSVLine line)] else [])\<rparr>,
      na + (if acceptsAsset line then 1 else 0),
      nl + (if acceptsLiability line then 1 else 0))"
proof (cases "acceptsAsset line")
  case True
  then have "\<not> acceptsLiability line" by (rule accepts_exclusive)
  then show ?thesis
    using True
    by (simp add: parseRow_def acceptsAsset_def Let_def importedAsset_def isNaN_def not_less)
next
  case False
  show ?thesis
  proof (cases "acceptsLiability line")
    case True
    then show ?thesis
      using False
      by (simp add: parseRow_def acceptsLiability_def Let_def importedLiability_def isNaN_def not_less)
  next
    case nl: False
    have "parseRow fr line (st, na, nl) = (st, na, nl)"
      using False nl
      by (auto simp: parseRow_def acceptsAsset_def acceptsLiability_def Let_def importedAsset_def
          importedLiability_def isNaN_def not_less)
    then show ?thesis using False nl by simp
  qed
qed

lemma zip_upt_Cons:
  "zip [i..<i + length (r # rows)] (r # rows) = (i, r) # zip [Suc i..<Suc i + length rows] rows"
proof -
  have "[i..<i + length (r # rows)] = i # [Suc i..<Suc i + length rows]"
    by (simp add: upt_conv_Cons del: upt_Suc)
  then show ?thesis by (simp del: upt_Suc)
qed

lemma assetsOfRows_Cons:
  "assetsOfRows env i (r # rows) =
     (if acceptsAsset r then [importedAsset (env i) (parseCSVLine r)] else []) @
     assetsOfRows env (Suc i) rows"
  unfolding assetsOfRows_def zip_upt_Cons by simp

lemma liabilitiesOfRows_Cons:
  "liabilitiesOfRows env i (r # rows) =
     (if acceptsLiability r then [importedLiability (env i) (parseCSVLine r)] else []) @
     liabilitiesOfRows env (Suc i) rows"
  unfolding liabilitiesOfRows_def zip_upt_Cons by simp

lemma parseRows_eq:
  "parseRows env i rows (st, na, nl) =
     (st\<lparr>assets := assets st @ assetsOfRows env i rows,
         liabilities := liabilities st @ liabilitiesOfRows env i rows\<rparr>,
      na + length (filter acceptsAsset rows),
      nl + length (filter acceptsLiability rows))"
proof (induction rows arbitrary: i st na nl)
  case Nil
  show ?case by (simp add: assetsOfRows_def liabilitiesOfRows_def)
next
  case (Cons r rows)
  show ?case
    unfolding parseRows.simps parseRow_eq Cons.IH assetsOfRows_Cons liabilitiesOfRows_Cons
    by simp
qed

lemma length_assetsOfRows: "length (assetsOfRows env i rows) = length (filter acceptsAsset rows)"
proof (induction rows arbitrary: i)
  case Nil
  show ?case by (simp add: assetsOfRows_def)
next
  case (Cons r rows)
  show ?case unfolding assetsOfRows_Cons using Cons.IH by simp
qed

lemma length_liabilitiesOfRows:
  "length (liabilitiesOfRows env i rows) = length (filter acceptsLiability rows)"
proof (induction rows arbitrary: i)
  case Nil
  show ?case by (simp add: liabilitiesOfRows_def)
next
  case (Cons r rows)
  show ?case unfolding liabilitiesOfRows_Cons using Cons.IH by simp
qed

lemma assetsOfRows_valid:
  "a \<in> set (assetsOfRows env i rows) \<Longrightarrow>
     asset_name a \<noteq> [] \<and> asset_category a \<noteq> [] \<and> purchaseDate a \<noteq> [] \<and>
     purchasePrice a \<noteq> NaN \<and> currentValue a \<noteq> NaN \<and> associatedDebtId a = None"
  by (auto simp: assetsOfRows_def acceptsAsset_def importedAsset_def Let_def)

lemma liabilitiesOfRows_valid:
  "l \<in> set (liabilitiesOfRows env i rows) \<Longrightarrow>
     liability_name l \<noteq> [] \<and> liability_category l \<noteq> [] \<and> startDate l \<noteq> [] \<and>
     originalAmount l \<noteq> NaN \<and> currentBalance l \<noteq> NaN \<and> associatedAssetId l = None"
  by (auto simp: liabilitiesOfRows_def acceptsLiability_def importedLiability_def Let_def)

text \<open>
  C5, as amended. For every text, \<^verbatim>\<open>parseCSV\<close> drops the blank lines, does not read
  the first remaining line, and adds to the store exactly the records of the later lines
  that pass the test of the code: at least 11 fields, the type \<^verbatim>\<open>Asset\<close> or
  \<^verbatim>\<open>Liability\<close>, non-empty required fields, and required numeric fields that
  \<^verbatim>\<open>parseFloat\<close> reads as something other than \<^verbatim>\<open>NaN\<close>. The test is
  \<^verbatim>\<open>!isNaN\<close>, so \<^verbatim>\<open>Infinity\<close> and \<^verbatim>\<open>-Infinity\<close> pass it. All other lines leave
  no trace, and the two counts returned are the numbers of records added. Every record added
  has its link field \<^verbatim>\<open>null\<close>.
\<close>

theorem parseCSV_accepts:
  "parseCSV env csvText st =
     (st\<lparr>assets := assets st @ assetsOfRows env 1 (drop 1 (csvLines csvText)),
         liabilities := liabilities st @ liabilitiesOfRows env 1 (drop 1 (csvLines csvText))\<rparr>,
      length (assetsOfRows env 1 (drop 1 (csvLines csvText))),
      length (liabilitiesOfRows env 1 (drop 1 (csvLines csvText)))) \<and>
   length (assetsOfRows env 1 (drop 1 (csvLines csvText))) =
     length (filter acceptsAsset (drop 1 (csvLines csvText))) \<and>
   length (liabilitiesOfRows env 1 (drop 1 (csvLines csvText))) =
     length (filter acceptsLiability (drop 1 (csvLines csvText))) \<and>
   (\<forall>a \<in> set (assetsOfRows env 1 (drop 1 (csvLines csvText))).
      asset_name a \<noteq> [] \<and> asset_category a \<noteq> [] \<and> purchaseDate a \<noteq> [] \<and>
      purchasePrice a \<noteq> NaN \<and> currentValue a \<noteq> NaN \<and> associatedDebtId a = None) \<and>
   (\<forall>l \<in> set (liabilitiesOfRows env 1 (drop 1 (csvLines csvText))).
      liability_name l \<noteq> [] \<and> liability_category l \<noteq> [] \<and> startDate l \<noteq> [] \<and>
      originalAmount l \<noteq> NaN \<and> currentBalance l \<noteq> NaN \<and> associatedAssetId l = None)"
  unfolding parseCSV_def parseRows_eq
  using assetsOfRows_valid [of _ env 1 "drop 1 (csvLines csvText)"]
    liabilitiesOfRows_valid [of _ env 1 "drop 1 (csvLines csvText)"]
  by (simp add: length_assetsOfRows length_liabilitiesOfRows)

subsection \<open>Evaluating the sample imports\<close>

lemma parseFloat_samples:
  "parseFloat ''300'' \<noteq> NaN" "parseFloat ''350'' \<noteq> NaN" "parseFloat ''5'' \<noteq> NaN"
  "parseFloat ''250'' \<noteq> NaN" "parseFloat ''120'' \<noteq> NaN" "parseFloat ''abc'' = NaN"
  "parseFloat ''Infinity'' = PInf"
  by (simp_all add: parseFloat_eval roundD_not_NaN)

lemma trim_Bond: "trim ''Bond'' = ''Bond''"
  by (simp add: trim_def isWhiteSpace_def)

lemma messyCSV_rows:
  "drop 1 (csvLines messyCSV) =
     [''Asset,Example Home,Real Estate,2020-01-01,300,350,,,,,My primary residence'',
      ''Asset,Short Row,Cash,2020-01-01,5,5'',
      ''Asset,No Price,Cash,2020-01-01,abc,5,,,,,'',
      ''Asset,,Cash,2020-01-01,5,5,,,,,'',
      ''Bond,Treasury,Cash,2020-01-01,5,5,,,,,'',
      ''Liability,Car Loan,Auto Loan,,,,250,120,4.5,2021-06-15,60-month term'']"
  by code_simp

lemma cells_home:
  "parseCSVLine ''Asset,Example Home,Real Estate,2020-01-01,300,350,,,,,My primary residence'' =
     [''Asset'', ''Example Home'', ''Real Estate'', ''2020-01-01'', ''300'', ''350'', [], [], [], [], ''My primary residence'']"
  by code_simp

lemma cells_short:
  "parseCSVLine ''Asset,Short Row,Cash,2020-01-01,5,5'' =
     [''Asset'', ''Short Row'', ''Cash'', ''2020-01-01'', ''5'', ''5'']"
  by code_simp

lemma cells_noPrice:
  "parseCSVLine ''Asset,No Price,Cash,2020-01-01,abc,5,,,,,'' =
     [''Asset'', ''No Price'', ''Cash'', ''2020-01-01'', ''abc'', ''5'', [], [], [], [], []]"
  by code_simp

lemma cells_noName:
  "parseCSVLine ''Asset,,Cash,2020-01-01,5,5,,,,,'' =
     [''Asset'', [], ''Cash'', ''2020-01-01'', ''5'', ''5'', [], [], [], [], []]"
  by code_simp

lemma cells_bond:
  "parseCSVLine ''Bond,Treasury,Cash,2020-01-01,5,5,,,,,'' =
     [''Bond'', ''Treasury'', ''Cash'', ''2020-01-01'', ''5'', ''5'', [], [], [], [], []]"
  by code_simp

lemma cells_carLoan:
  "parseCSVLine ''Liability,Car Loan,Auto Loan,,,,250,120,4.5,2021-06-15,60-month term'' =
     [''Liability'', ''Car Loan'', ''Auto Loan'', [], [], [], ''250'', ''120'', ''4.5'', ''2021-06-15'', ''60-month term'']"
  by code_simp

lemma accepts_home:
  "acceptsAsset ''Asset,Example Home,Real Estate,2020-01-01,300,350,,,,,My primary residence'' = True"
  "acceptsLiability ''Asset,Example Home,Real Estate,2020-01-01,300,350,,,,,My primary residence'' = False"
  by (simp_all add: acceptsAsset_def acceptsLiability_def cells_home trim_Asset trim_Liability
      trim_Bond parseFloat_samples)

lemma accepts_short:
  "acceptsAsset ''Asset,Short Row,Cash,2020-01-01,5,5'' = False"
  "acceptsLiability ''Asset,Short Row,Cash,2020-01-01,5,5'' = False"
  by (simp_all add: acceptsAsset_def acceptsLiability_def cells_short trim_Asset trim_Liability
      trim_Bond parseFloat_samples)

lemma accepts_noPrice:
  "acceptsAsset ''Asset,No Price,Cash,2020-01-01,abc,5,,,,,'' = False"
  "acceptsLiability ''Asset,No Price,Cash,2020-01-01,abc,5,,,,,'' = False"
  by (simp_all add: acceptsAsset_def acceptsLiability_def cells_noPrice trim_Asset trim_Liability
      trim_Bond parseFloat_samples)

lemma accepts_noName:
  "acceptsAsset ''Asset,,Cash,2020-01-01,5,5,,,,,'' = False"
  "acceptsLiability ''Asset,,Cash,2020-01-01,5,5,,,,,'' = False"
  by (simp_all add: acceptsAsset_def acceptsLiability_def cells_noName trim_Asset trim_Liability
      trim_Bond parseFloat_samples)

lemma accepts_bond:
  "acceptsAsset ''Bond,Treasury,Cash,2020-01-01,5,5,,,,,'' = False"
  "acceptsLiability ''Bond,Treasury,Cash,2020-01-01,5,5,,,,,'' = False"
  by (simp_all add: acceptsAsset_def acceptsLiability_def cells_bond trim_Asset trim_Liability
      trim_Bond parseFloat_samples)

lemma accepts_carLoan:
  "acceptsAsset ''Liability,Car Loan,Auto Loan,,,,250,120,4.5,2021-06-15,60-month term'' = False"
  "acceptsLiability ''Liability,Car Loan,Auto Loan,,,,250,120,4.5,2021-06-15,60-month term'' = True"
  by (simp_all add: acceptsAsset_def acceptsLiability_def cells_carLoan trim_Asset trim_Liability
      trim_Bond parseFloat_samples)

lemma messyCSV_import:
  "(\<lambda>(s, c). (map asset_name (assets s), map liability_name (liabilities s), c))
     (parseCSV sampleEnv messyCSV emptyStore) = ([''Example Home''], [''Car Loan''], 1, 1)"
  unfolding parseCSV_def messyCSV_rows
  by (simp add: parseRow_eq accepts_home accepts_short accepts_noPrice accepts_noName
      accepts_bond accepts_carLoan cells_home cells_carLoan importedAsset_def
      importedLiability_def emptyStore_def)

lemma infinityCSV_rows:
  "drop 1 (csvLines infinityCSV) = [''Asset,Gold,Collectibles,2020-01-01,Infinity,5,,,,,'']"
  by code_simp

lemma cells_gold:
  "parseCSVLine ''Asset,Gold,Collectibles,2020-01-01,Infinity,5,,,,,'' =
     [''Asset'', ''Gold'', ''Collectibles'', ''2020-01-01'', ''Infinity'', ''5'', [], [], [], [], []]"
  by code_simp

lemma accepts_gold:
  "acceptsAsset ''Asset,Gold,Collectibles,2020-01-01,Infinity,5,,,,,'' = True"
  "acceptsLiability ''Asset,Gold,Collectibles,2020-01-01,Infinity,5,,,,,'' = False"
  by (simp_all add: acceptsAsset_def acceptsLiability_def cells_gold trim_Asset trim_Liability
      parseFloat_samples)

lemma infinityCSV_import:
  "(\<lambda>(s, c). (map purchasePrice (assets s), c))
     (parseCSV sampleEnv infinityCSV emptyStore) = ([PInf], 1, 0)"
  unfolding parseCSV_def infinityCSV_rows
  by (simp add: parseRow_eq accepts_gold cells_gold importedAsset_def emptyStore_def
      parseFloat_samples)

theorem parseCSV_accepts_witness:
  "snd (parseCSV sampleEnv messyCSV emptyStore) = (1, 1) \<and>
   map asset_name (assets (fst (parseCSV sampleEnv messyCSV emptyStore))) = [''Example Home''] \<and>
   map liability_name (liabilities (fst (parseCSV sampleEnv messyCSV emptyStore))) = [''Car Loan''] \<and>
   length (filter acceptsAsset (drop 1 (csvLines messyCSV))) = 1 \<and>
   length (filter acceptsLiability (drop 1 (csvLines messyCSV))) = 1"
proof -
  have e: "snd (parseCSV sampleEnv messyCSV emptyStore) = (1, 1) \<and>
   map asset_name (assets (fst (parseCSV sampleEnv messyCSV emptyStore))) = [''Example Home''] \<and>
   map liability_name (liabilities (fst (parseCSV sampleEnv messyCSV emptyStore))) = [''Car Loan'']"
    using messyCSV_import by (simp add: case_prod_unfold)
  note t = parseCSV_accepts [of sampleEnv messyCSV emptyStore]
  have c: "snd (parseCSV sampleEnv messyCSV emptyStore) =
      (length (assetsOfRows sampleEnv 1 (drop 1 (csvLines messyCSV))),
       length (liabilitiesOfRows sampleEnv 1 (drop 1 (csvLines messyCSV))))"
    using t by simp
  have "length (filter acceptsAsset (drop 1 (csvLines messyCSV))) = 1 \<and>
        length (filter acceptsLiability (drop 1 (csvLines messyCSV))) = 1"
    using t c e by simp
  then show ?thesis using e by simp
qed

text \<open>
  The claim as stated fails: a row whose purchase price is the text \<^verbatim>\<open>Infinity\<close> is
  accepted and counted, and the stored price is not finite.
\<close>

theorem parseCSV_infinity_counterexample:
  "snd (parseCSV sampleEnv infinityCSV emptyStore) = (1, 0) \<and>
   map purchasePrice (assets (fst (parseCSV sampleEnv infinityCSV emptyStore))) = [PInf] \<and>
   \<not> isFinite PInf"
  using infinityCSV_import by (simp add: case_prod_unfold isFinite_def)

subsection \<open>Exported liabilities\<close>

lemma scanLine_quoted_run:
  "CHR 0x22 \<notin> set f \<Longrightarrow> scanLine cur True res (f @ rest) = scanLine (cur @ f) True res rest"
  by (induction f arbitrary: cur) auto

lemma scanLine_bare_run:
  "CHR 0x22 \<notin> set f \<Longrightarrow> CHR '','' \<notin> set f \<Longrightarrow>
   scanLine cur False res (f @ rest) = scanLine (cur @ f) False res rest"
  by (induction f arbitrary: cur) auto

lemma cell_bare:
  "bareCell f \<Longrightarrow> scanLine [] False res (f @ CHR '','' # rest) = scanLine [] False (res @ [trim f]) rest"
  by (simp add: bareCell_def scanLine_bare_run)

lemma cell_quoted:
  "CHR 0x22 \<notin> set f \<Longrightarrow>
   scanLine [] False res (CHR 0x22 # f @ CHR 0x22 # CHR '','' # rest) =
     scanLine [] False (res @ [trim f]) rest"
  by (simp add: scanLine_quoted_run)

lemma cell_empty: "scanLine [] False res (CHR '','' # rest) = scanLine [] False (res @ [[]]) rest"
  by (simp add: trim_Nil)

lemma scanLine_keeps_result: "\<exists>ys. scanLine cur q res cs = res @ ys"
proof (induction cs arbitrary: cur q res)
  case Nil
  show ?case by simp
next
  case (Cons c cs)
  obtain ys where "scanLine [] False (res @ [trim cur]) cs = (res @ [trim cur]) @ ys"
    using Cons.IH by blast
  then have "\<exists>zs. scanLine [] False (res @ [trim cur]) cs = res @ zs"
    by simp
  then show ?case using Cons.IH by simp
qed

text \<open>The tokenizer returns one cell more than the line has commas outside quotes.\<close>

lemma scanLine_cells: "length (scanLine cur q res cs) = Suc (length res + bareCommas q cs)"
proof (induction cs arbitrary: cur q res)
  case Nil
  show ?case by simp
next
  case (Cons c cs)
  have "length (scanLine [] False (res @ [trim cur]) cs) =
        Suc (length (res @ [trim cur]) + bareCommas False cs)"
    by (rule Cons.IH)
  then show ?case using Cons.IH by simp
qed

lemma parseCSVLine_liabilityRowStart:
  assumes "plainLiability nts l"
  shows "parseCSVLine (liabilityRowStart nts l @ rest) =
     scanLine [] True
       [''Liability'', trim (liability_name l), trim (liability_category l), [], [],
        trim (nts (originalAmount l)), trim (nts (currentBalance l)),
        trim (nts (interestRate l)), trim (startDate l)] rest"
proof -
  have n: "CHR 0x22 \<notin> set (liability_name l)"
    and c: "bareCell (liability_category l)"
    and o: "bareCell (nts (originalAmount l))"
    and b: "bareCell (nts (currentBalance l))"
    and r: "bareCell (nts (interestRate l))"
    and d: "bareCell (startDate l)"
    using assms by (simp_all add: plainLiability_def)
  let ?r6 = "CHR 0x22 # rest"
  let ?r5 = "startDate l @ CHR '','' # ?r6"
  let ?r4 = "nts (interestRate l) @ CHR '','' # ?r5"
  let ?r3 = "nts (currentBalance l) @ CHR '','' # ?r4"
  let ?r2 = "nts (originalAmount l) @ CHR '','' # ?r3"
  let ?r1 = "liability_category l @ CHR '','' # CHR '','' # CHR '','' # ?r2"
  let ?r0 = "CHR 0x22 # liability_name l @ CHR 0x22 # CHR '','' # ?r1"
  let ?n = "trim (liability_name l)" and ?c = "trim (liability_category l)"
  let ?o = "trim (nts (originalAmount l))" and ?b = "trim (nts (currentBalance l))"
  let ?i = "trim (nts (interestRate l))" and ?d = "trim (startDate l)"
  have "parseCSVLine (liabilityRowStart nts l @ rest) = scanLine [] False [''Liability''] ?r0"
    by (simp add: parseCSVLine_def liabilityRowStart_def trim_Liability)
  also have "\<dots> = scanLine [] False [''Liability'', ?n] ?r1"
    using cell_quoted [OF n, of "[''Liability'']" ?r1] by simp
  also have "\<dots> = scanLine [] False [''Liability'', ?n, ?c] (CHR '','' # CHR '','' # ?r2)"
    using cell_bare [OF c, of "[''Liability'', ?n]" "CHR '','' # CHR '','' # ?r2"] by simp
  also have "\<dots> = scanLine [] False [''Liability'', ?n, ?c, [], []] ?r2"
    by (simp only: cell_empty append_Cons append_Nil)
  also have "\<dots> = scanLine [] False [''Liability'', ?n, ?c, [], [], ?o] ?r3"
    using cell_bare [OF o, of "[''Liability'', ?n, ?c, [], []]" ?r3] by simp
  also have "\<dots> = scanLine [] False [''Liability'', ?n, ?c, [], [], ?o, ?b] ?r4"
    using cell_bare [OF b, of "[''Liability'', ?n, ?c, [], [], ?o]" ?r4] by simp
  also have "\<dots> = scanLine [] False [''Liability'', ?n, ?c, [], [], ?o, ?b, ?i] ?r5"
    using cell_bare [OF r, of "[''Liability'', ?n, ?c, [], [], ?o, ?b]" ?r5] by simp
  also have "\<dots> = scanLine [] False [''Liability'', ?n, ?c, [], [], ?o, ?b, ?i, ?d] ?r6"
    using cell_bare [OF d, of "[''Liability'', ?n, ?c, [], [], ?o, ?b, ?i]" ?r6] by simp
  also have "\<dots> = scanLine [] True [''Liability'', ?n, ?c, [], [], ?o, ?b, ?i, ?d] rest"
    by simp
  finally show ?thesis .
qed

text \<open>
  C1. An exported liability is not imported again. Whatever follows the opening quote of the
  notes, the row that \<^verbatim>\<open>exportData\<close> writes for a liability starts with nine cells: the
  type, the name, the category, two empty cells and the three amounts and the start date,
  one empty cell fewer than the header and the liability rows of \<^verbatim>\<open>exportTemplate\<close>
  have before the original amount. The row has ten cells plus one for every comma outside
  quotes in what follows; when there is none, as for notes without a double quote and the
  closing quote, \<^verbatim>\<open>parseCSV\<close> finds fewer than 11 fields and skips the row.
\<close>

theorem exported_liability_row_skipped:
  "plainLiability numToString l \<longrightarrow>
     length (parseCSVLine (liabilityRowStart numToString l @ rest)) = 10 + bareCommas True rest \<and>
     take 9 (parseCSVLine (liabilityRowStart numToString l @ rest)) =
       [''Liability'', trim (liability_name l), trim (liability_category l), [], [],
        trim (numToString (originalAmount l)), trim (numToString (currentBalance l)),
        trim (numToString (interestRate l)), trim (startDate l)] \<and>
     (bareCommas True rest = 0 \<longrightarrow>
        parseRow fr (liabilityRowStart numToString l @ rest) acc = acc)"
proof
  assume h: "plainLiability numToString l"
  let ?line = "liabilityRowStart numToString l @ rest"
  let ?cells = "[''Liability'', trim (liability_name l), trim (liability_category l), [], [],
        trim (numToString (originalAmount l)), trim (numToString (currentBalance l)),
        trim (numToString (interestRate l)), trim (startDate l)]"
  have p: "parseCSVLine ?line = scanLine [] True ?cells rest"
    using h by (rule parseCSVLine_liabilityRowStart)
  have n: "length (parseCSVLine ?line) = 10 + bareCommas True rest"
    unfolding p scanLine_cells by simp
  obtain ys where "scanLine [] True ?cells rest = ?cells @ ys"
    using scanLine_keeps_result by blast
  then have t: "take 9 (parseCSVLine ?line) = ?cells"
    unfolding p by simp
  have s: "bareCommas True rest = 0 \<longrightarrow> parseRow fr ?line acc = acc"
  proof
    assume "bareCommas True rest = 0"
    then have "length (parseCSVLine ?line) < 11"
      using n by simp
    then show "parseRow fr ?line acc = acc"
      by (cases acc) (simp add: parseRow_def Let_def)
  qed
  show "length (parseCSVLine ?line) = 10 + bareCommas True rest \<and>
     take 9 (parseCSVLine ?line) = ?cells \<and>
     (bareCommas True rest = 0 \<longrightarrow> parseRow fr ?line acc = acc)"
    using n t s by blast
qed

lemma intMortgage_row:
  "liabilityRowStart integerToString intMortgage @ notesEnd =
     ''Liability,'' @ [CHR 0x22] @ ''Home Mortgage'' @ [CHR 0x22] @
     '',Mortgage,,,250000,240000,4,2020-01-01,'' @ [CHR 0x22] @
     ''30-year fixed, no prepayment'' @ [CHR 0x22]"
  by (simp add: liabilityRowStart_def intMortgage_def homeMortgage_def notesEnd_def
      integerToString_def natDigits.simps digitChar_def)

lemma intMortgage_lines:
  "drop 1 (csvLines (csvHeader @ [CHR 0x0A] @
     (''Liability,'' @ [CHR 0x22] @ ''Home Mortgage'' @ [CHR 0x22] @
      '',Mortgage,,,250000,240000,4,2020-01-01,'' @ [CHR 0x22] @
      ''30-year fixed, no prepayment'' @ [CHR 0x22]) @ [CHR 0x0A])) =
   [''Liability,'' @ [CHR 0x22] @ ''Home Mortgage'' @ [CHR 0x22] @
      '',Mortgage,,,250000,240000,4,2020-01-01,'' @ [CHR 0x22] @
      ''30-year fixed, no prepayment'' @ [CHR 0x22]]"
  by code_simp

lemma template_rows_cells:
  "map (\<lambda>r. length (parseCSVLine r)) (drop 1 (csvLines exportTemplate)) = [11, 11, 11, 11, 11]"
  by code_simp

theorem exported_liability_row_skipped_witness:
  "plainLiability integerToString intMortgage \<and>
   bareCommas True notesEnd = 0 \<and>
   length (parseCSVLine (liabilityRowStart integerToString intMortgage @ notesEnd)) = 10 \<and>
   take 9 (parseCSVLine (liabilityRowStart integerToString intMortgage @ notesEnd)) =
     [''Liability'', ''Home Mortgage'', ''Mortgage'', [], [], ''250000'', ''240000'', ''4'',
      ''2020-01-01''] \<and>
   parseCSV sampleEnv
     (csvHeader @ [CHR 0x0A] @ (liabilityRowStart integerToString intMortgage @ notesEnd) @
      [CHR 0x0A]) scenarioStore = (scenarioStore, 0, 0) \<and>
   map (\<lambda>r. length (parseCSVLine r)) (drop 1 (csvLines exportTemplate)) = [11, 11, 11, 11, 11]"
proof -
  let ?line = "liabilityRowStart integerToString intMortgage @ notesEnd"
  have h: "plainLiability integerToString intMortgage"
    by (simp add: plainLiability_def bareCell_def intMortgage_def homeMortgage_def
        integerToString_def natDigits.simps digitChar_def)
  have z: "bareCommas True notesEnd = 0"
    by (simp add: notesEnd_def)
  note t = exported_liability_row_skipped [of integerToString intMortgage notesEnd
      "sampleEnv 1" "(scenarioStore, 0, 0)"]
  have n: "length (parseCSVLine ?line) = 10 + bareCommas True notesEnd"
    using t h by blast
  have c: "take 9 (parseCSVLine ?line) =
       [''Liability'', trim (liability_name intMortgage), trim (liability_category intMortgage),
        [], [], trim (integerToString (originalAmount intMortgage)),
        trim (integerToString (currentBalance intMortgage)),
        trim (integerToString (interestRate intMortgage)), trim (startDate intMortgage)]"
    using t h by blast
  have s: "parseRow (sampleEnv 1) ?line (scenarioStore, 0, 0) = (scenarioStore, 0, 0)"
    using t h z by blast
  have c': "take 9 (parseCSVLine ?line) =
     [''Liability'', ''Home Mortgage'', ''Mortgage'', [], [], ''250000'', ''240000'', ''4'',
      ''2020-01-01'']"
    unfolding c
    by (simp add: intMortgage_def homeMortgage_def integerToString_def natDigits.simps
        digitChar_def trim_def isWhiteSpace_def)
  have l: "drop 1 (csvLines (csvHeader @ [CHR 0x0A] @ ?line @ [CHR 0x0A])) = [?line]"
    unfolding intMortgage_row by (rule intMortgage_lines)
  have p: "parseCSV sampleEnv (csvHeader @ [CHR 0x0A] @ ?line @ [CHR 0x0A]) scenarioStore =
      (scenarioStore, 0, 0)"
    unfolding parseCSV_def l using s by simp
  show ?thesis
    using h z n c' p template_rows_cells by simp
qed

end
